theory Spec2Isabelle
  imports Main "HOL-Library.Word" "HOL-Library.Multiset"
begin

unbundle bit_operations_syntax

section \<open>DisOrder: protocol engine, event reactor and RTP sender\<close>

subsection \<open>Rights\<close>

text \<open>
  Modelled from the spec: the \<open>RIGHT_*\<close> constants and \<open>rights_type\<close> are declared in
  \<open>rights.h\<close>, which is not among the sources.  The spec lists the bits of the rights
  bitmask; a mask is modelled as the set of its bits, so that \<open>a & b\<close> is
  \<open>a \<inter> b\<close>, \<open>a | b\<close> is \<open>a \<union> b\<close> and the mask \<open>0\<close> is \<open>{}\<close>.
\<close>

datatype right =
    READ | PLAY | MOVE_ANY | MOVE_MINE | MOVE_RANDOM
  | REMOVE_ANY | REMOVE_MINE | REMOVE_RANDOM
  | SCRATCH_ANY | SCRATCH_MINE | SCRATCH_RANDOM
  | VOLUME | ADMIN | RESCAN | REGISTER | USERINFO | PREFS | GLOBAL_PREFS | PAUSE
  | LOCAL

type_synonym rights_type = "right set"

definition RIGHT_READ :: rights_type where "RIGHT_READ = {READ}"
definition RIGHT_PLAY :: rights_type where "RIGHT_PLAY = {PLAY}"
definition RIGHT_MOVE__MASK :: rights_type where
  "RIGHT_MOVE__MASK = {MOVE_ANY, MOVE_MINE, MOVE_RANDOM}"
definition RIGHT_REMOVE__MASK :: rights_type where
  "RIGHT_REMOVE__MASK = {REMOVE_ANY, REMOVE_MINE, REMOVE_RANDOM}"
definition RIGHT_SCRATCH__MASK :: rights_type where
  "RIGHT_SCRATCH__MASK = {SCRATCH_ANY, SCRATCH_MINE, SCRATCH_RANDOM}"
definition RIGHT_VOLUME :: rights_type where "RIGHT_VOLUME = {VOLUME}"
definition RIGHT_ADMIN :: rights_type where "RIGHT_ADMIN = {ADMIN}"
definition RIGHT_RESCAN :: rights_type where "RIGHT_RESCAN = {RESCAN}"
definition RIGHT_REGISTER :: rights_type where "RIGHT_REGISTER = {REGISTER}"
definition RIGHT_USERINFO :: rights_type where "RIGHT_USERINFO = {USERINFO}"
definition RIGHT_PREFS :: rights_type where "RIGHT_PREFS = {PREFS}"
definition RIGHT_GLOBAL_PREFS :: rights_type where "RIGHT_GLOBAL_PREFS = {GLOBAL_PREFS}"
definition RIGHT_PAUSE :: rights_type where "RIGHT_PAUSE = {PAUSE}"
definition RIGHT__LOCAL :: rights_type where "RIGHT__LOCAL = {LOCAL}"

subsection \<open>Connections (server/server.c, struct conn)\<close>

text \<open>
  A socket address is kept as the pair of host and service strings it was resolved
  from.  \<open>who\<close> is \<open>None\<close> for the C null pointer.  \<open>privileged\<close> is the
  \<open>privileged\<close> flag of the parent listener \<open>c->l\<close>.  \<open>out\<close> collects, in order, the
  lines written to the sink of the connection's writer \<open>c->w\<close> (each without its
  terminating newline).
\<close>

type_synonym sockaddr = "string \<times> string"

record conn =
  tag :: nat
  who :: "string option"
  nonce :: "8 word list"
  privileged :: bool
  rights :: rights_type
  rtp_requested :: bool
  rtp_destination :: sockaddr
  out :: "string list"

definition sink_writes :: "conn \<Rightarrow> string \<Rightarrow> conn" where
  "sink_writes c l = c\<lparr>out := out c @ [l]\<rparr>"

subsection \<open>The command table and the dispatcher (server/server.c)\<close>

text \<open>
  The function pointer \<open>fn\<close> of a table entry is modelled by the name of the
  function it points to.
\<close>

type_synonym handler = string

record command_entry =
  cmd_name :: string
  minargs :: int
  maxargs :: int
  fn :: handler
  cmd_rights :: rights_type

definition INT_MAX :: int where "INT_MAX = 2147483647"

definition entry :: "string \<Rightarrow> int \<Rightarrow> int \<Rightarrow> handler \<Rightarrow> rights_type \<Rightarrow> command_entry" where
  "entry n lo hi f r = \<lparr>cmd_name = n, minargs = lo, maxargs = hi, fn = f, cmd_rights = r\<rparr>"

definition commands :: "command_entry list" where
  "commands = [
    entry ''adduser''        2 3       ''c_adduser''        RIGHT_ADMIN,
    entry ''adopt''          1 1       ''c_adopt''          RIGHT_PLAY,
    entry ''allfiles''       0 2       ''c_allfiles''       RIGHT_READ,
    entry ''confirm''        1 1       ''c_confirm''        {},
    entry ''cookie''         1 1       ''c_cookie''         {},
    entry ''deluser''        1 1       ''c_deluser''        RIGHT_ADMIN,
    entry ''dirs''           0 2       ''c_dirs''           RIGHT_READ,
    entry ''disable''        0 1       ''c_disable''        RIGHT_GLOBAL_PREFS,
    entry ''edituser''       3 3       ''c_edituser''       (RIGHT_ADMIN \<union> RIGHT_USERINFO),
    entry ''enable''         0 0       ''c_enable''         RIGHT_GLOBAL_PREFS,
    entry ''enabled''        0 0       ''c_enabled''        RIGHT_READ,
    entry ''exists''         1 1       ''c_exists''         RIGHT_READ,
    entry ''files''          0 2       ''c_files''          RIGHT_READ,
    entry ''get''            2 2       ''c_get''            RIGHT_READ,
    entry ''get-global''     1 1       ''c_get_global''     RIGHT_READ,
    entry ''length''         1 1       ''c_length''         RIGHT_READ,
    entry ''log''            0 0       ''c_log''            RIGHT_READ,
    entry ''make-cookie''    0 0       ''c_make_cookie''    RIGHT_READ,
    entry ''move''           2 2       ''c_move''           RIGHT_MOVE__MASK,
    entry ''moveafter''      1 INT_MAX ''c_moveafter''      RIGHT_MOVE__MASK,
    entry ''new''            0 1       ''c_new''            RIGHT_READ,
    entry ''nop''            0 0       ''c_nop''            {},
    entry ''part''           3 4       ''c_part''           RIGHT_READ,
    entry ''pause''          0 0       ''c_pause''          RIGHT_PAUSE,
    entry ''play''           1 1       ''c_play''           RIGHT_PLAY,
    entry ''playafter''      2 INT_MAX ''c_playafter''      RIGHT_PLAY,
    entry ''playing''        0 0       ''c_playing''        RIGHT_READ,
    entry ''playing-hls''    0 0       ''c_playing_hls''    RIGHT_READ,
    entry ''playlist-delete''    1 1   ''c_playlist_delete''    RIGHT_PLAY,
    entry ''playlist-get''       1 1   ''c_playlist_get''       RIGHT_READ,
    entry ''playlist-get-share'' 1 1   ''c_playlist_get_share'' RIGHT_READ,
    entry ''playlist-lock''      1 1   ''c_playlist_lock''      RIGHT_PLAY,
    entry ''playlist-set''       1 1   ''c_playlist_set''       RIGHT_PLAY,
    entry ''playlist-set-share'' 2 2   ''c_playlist_set_share'' RIGHT_PLAY,
    entry ''playlist-unlock''    0 0   ''c_playlist_unlock''    RIGHT_PLAY,
    entry ''playlists''          0 0   ''c_playlists''          RIGHT_READ,
    entry ''prefs''          1 1       ''c_prefs''          RIGHT_READ,
    entry ''queue''          0 0       ''c_queue''          RIGHT_READ,
    entry ''random-disable'' 0 0       ''c_random_disable'' RIGHT_GLOBAL_PREFS,
    entry ''random-enable''  0 0       ''c_random_enable''  RIGHT_GLOBAL_PREFS,
    entry ''random-enabled'' 0 0       ''c_random_enabled'' RIGHT_READ,
    entry ''recent''         0 0       ''c_recent''         RIGHT_READ,
    entry ''reconfigure''    0 0       ''c_reconfigure''    RIGHT_ADMIN,
    entry ''register''       3 3       ''c_register''       RIGHT_REGISTER,
    entry ''reminder''       1 1       ''c_reminder''       RIGHT__LOCAL,
    entry ''remove''         1 1       ''c_remove''         RIGHT_REMOVE__MASK,
    entry ''rescan''         0 INT_MAX ''c_rescan''         RIGHT_RESCAN,
    entry ''resolve''        1 1       ''c_resolve''        RIGHT_READ,
    entry ''resume''         0 0       ''c_resume''         RIGHT_PAUSE,
    entry ''revoke''         0 0       ''c_revoke''         RIGHT_READ,
    entry ''rtp-address''    0 0       ''c_rtp_address''    {},
    entry ''rtp-cancel''     0 0       ''c_rtp_cancel''     {},
    entry ''rtp-request''    2 2       ''c_rtp_request''    RIGHT_READ,
    entry ''schedule-add''   3 INT_MAX ''c_schedule_add''   RIGHT_READ,
    entry ''schedule-del''   1 1       ''c_schedule_del''   RIGHT_READ,
    entry ''schedule-get''   1 1       ''c_schedule_get''   RIGHT_READ,
    entry ''schedule-list''  0 0       ''c_schedule_list''  RIGHT_READ,
    entry ''scratch''        0 1       ''c_scratch''        RIGHT_SCRATCH__MASK,
    entry ''search''         1 1       ''c_search''         RIGHT_READ,
    entry ''set''            3 3       ''c_set''            RIGHT_PREFS,
    entry ''set-global''     2 2       ''c_set_global''     RIGHT_GLOBAL_PREFS,
    entry ''shutdown''       0 0       ''c_shutdown''       RIGHT_ADMIN,
    entry ''stats''          0 0       ''c_stats''          RIGHT_READ,
    entry ''tags''           0 0       ''c_tags''           RIGHT_READ,
    entry ''unset''          2 2       ''c_set''            RIGHT_PREFS,
    entry ''unset-global''   1 1       ''c_set_global''     RIGHT_GLOBAL_PREFS,
    entry ''user''           2 2       ''c_user''           {},
    entry ''userinfo''       2 2       ''c_userinfo''       RIGHT_READ,
    entry ''users''          0 0       ''c_users''          RIGHT_READ,
    entry ''version''        0 0       ''c_version''        RIGHT_READ,
    entry ''volume''         0 2       ''c_volume''         (RIGHT_READ \<union> RIGHT_VOLUME)
  ]"

text \<open>
  \<open>TABLE_FIND\<close> (table.h, not among the sources) looks a name up in a table sorted
  by name and yields the index of the matching entry or \<open>-1\<close>; the table above is
  sorted and its names are distinct, so the lookup is the search below, with
  \<open>None\<close> for \<open>-1\<close>.
\<close>

definition TABLE_FIND :: "command_entry list \<Rightarrow> string \<Rightarrow> command_entry option" where
  "TABLE_FIND table n = find (\<lambda>e. cmd_name e = n) table"

text \<open>
  The two library calls at the head of \<open>command\<close>, \<open>utf8_compose_canon\<close> and
  \<open>split\<close>, are not among the sources; their joint outcome on the received line is
  the argument of the model: normalisation failed, splitting failed (with the
  messages \<open>split\<close> passed to its error callback \<open>command_error\<close>), or the vector of
  words.
\<close>

datatype split_result =
    CannotNormalize
  | SplitFailed "string list"
  | Words "string list"

text \<open>
  \<open>command\<close> either completes by itself (every such path returns 1) or calls the
  handler of the table entry with the remaining words.
\<close>

datatype outcome =
    Completed conn
  | Dispatch handler conn "string list"

definition command_error :: "string \<Rightarrow> conn \<Rightarrow> conn" where
  "command_error msg c = sink_writes c (''500 parse error: '' @ msg)"

fun command :: "conn \<Rightarrow> split_result \<Rightarrow> outcome" where
  "command c CannotNormalize = Completed (sink_writes c ''500 cannot normalize command'')"
| "command c (SplitFailed msgs) =
     Completed (sink_writes (fold command_error msgs c) ''500 cannot parse command'')"
| "command c (Words []) = Completed (sink_writes c ''500 do what?'')"
| "command c (Words (v0 # vec)) =
     (case TABLE_FIND commands v0 of
        None \<Rightarrow> Completed (sink_writes c ''500 unknown command'')
      | Some e \<Rightarrow>
          if cmd_rights e \<noteq> {} \<and> rights c \<inter> cmd_rights e = {}
          then Completed (sink_writes c ''510 Prohibited'')
          else if int (length vec) < minargs e
          then Completed (sink_writes c ''500 missing argument(s)'')
          else if int (length vec) > maxargs e
          then Completed (sink_writes c ''500 too many arguments'')
          else Dispatch (fn e) c vec)"

subsection \<open>Authentication: \<open>c_user\<close> (server/server.c)\<close>

text \<open>
  What \<open>c_user\<close> consults outside itself: the debugging flag \<open>wideopen\<close>, the
  configured algorithm, the user database, \<open>parse_rights\<close> (\<open>None\<close> when it
  reports an error), the hash primitive \<open>authhash\<close> (\<open>None\<close> for a null result) and
  \<open>connection_host\<close> (\<open>None\<close> for a null result).  None of the four functions is
  among the sources, so they are parameters.  A user record is a list of key-value
  pairs and \<open>kvp_get\<close> yields the value of the first pair with the key.
\<close>

type_synonym kvp = "(string \<times> string) list"

definition kvp_get :: "kvp \<Rightarrow> string \<Rightarrow> string option" where
  "kvp_get k key = map_of k key"

record auth_env =
  wideopen :: bool
  authorization_algorithm :: string
  trackdb_getuserinfo :: "string \<Rightarrow> kvp option"
  parse_rights :: "string option \<Rightarrow> rights_type option"
  authhash :: "8 word list \<Rightarrow> string \<Rightarrow> string \<Rightarrow> string option"
  connection_host :: "conn \<Rightarrow> string option"

definition c_user :: "auth_env \<Rightarrow> conn \<Rightarrow> string \<Rightarrow> string \<Rightarrow> conn" where
  "c_user env c v0 v1 =
     (if who c \<noteq> None then sink_writes c ''530 already authenticated''
      else case connection_host env c of
        None \<Rightarrow> sink_writes c ''530 authentication failure''
      | Some host \<Rightarrow>
         (case trackdb_getuserinfo env v0 of
            None \<Rightarrow> sink_writes c ''530 authentication failed''
          | Some k \<Rightarrow>
             if kvp_get k ''confirmation'' \<noteq> None
             then sink_writes c ''530 authentication failed''
             else
               let password = (case kvp_get k ''password'' of None \<Rightarrow> [] | Some p \<Rightarrow> p) in
               (case parse_rights env (kvp_get k ''rights'') of
                  None \<Rightarrow> sink_writes c ''530 authentication failed''
                | Some r \<Rightarrow>
                   let res = authhash env (nonce c) password (authorization_algorithm env) in
                   if wideopen env \<or> privileged c \<or> res = Some v1
                   then
                     let c1 = c\<lparr>who := Some v0, rights := r\<rparr>;
                         c2 = (if host \<noteq> ''local'' then c1
                               else c1\<lparr>rights := rights c1 \<union> RIGHT__LOCAL\<rparr>)
                     in sink_writes c2 ''230 OK''
                   else sink_writes c ''530 authentication failed'')))"

subsection \<open>\<open>c_playing_hls\<close> (server/server.c)\<close>

text \<open>
  The playing queue entry, as far as \<open>c_playing_hls\<close> reads it; \<open>None\<close> when
  nothing is playing.  \<open>track_rootless\<close> and \<open>urlencodestring\<close> are not among the
  sources and are parameters.  A null \<open>hls_baseurl\<close> is printed by \<open>%s\<close> as
  \<open>(null)\<close>.
\<close>

record queue_entry =
  track :: string
  played :: nat

record hls_env =
  hls_enable :: bool
  hls_baseurl :: "string option"
  playing :: "queue_entry option"
  track_rootless :: "string \<Rightarrow> string option"
  urlencodestring :: "string \<Rightarrow> string"

fun decimal :: "nat \<Rightarrow> string" where
  "decimal n =
     (if n < 10 then [''0123456789'' ! n]
      else decimal (n div 10) @ [''0123456789'' ! (n mod 10)])"

definition c_playing_hls :: "hls_env \<Rightarrow> conn \<Rightarrow> conn" where
  "c_playing_hls env c =
     (let c1 = (if \<not> hls_enable env \<or> hls_baseurl env = None
                then sink_writes c ''550 HLS not enabled'' else c)
      in case playing env of
           Some p \<Rightarrow>
             (case track_rootless env (track p) of
                None \<Rightarrow> sink_writes c1 ''259 nothing playing''
              | Some bare_track \<Rightarrow>
                  let encoded_track = urlencodestring env bare_track;
                      url = (case hls_baseurl env of None \<Rightarrow> ''(null)'' | Some b \<Rightarrow> b)
                            @ encoded_track
                  in sink_writes c1 (''252 '' @ decimal (played p) @ '' '' @ url))
         | None \<Rightarrow> sink_writes c1 ''259 nothing playing'')"

text \<open>Classification of reply lines by their first digit.\<close>

definition is_error_line :: "string \<Rightarrow> bool" where
  "is_error_line l = (case l of [] \<Rightarrow> False | d # _ \<Rightarrow> d = CHR ''4'' \<or> d = CHR ''5'')"

definition is_success_line :: "string \<Rightarrow> bool" where
  "is_success_line l = (case l of [] \<Rightarrow> False | d # _ \<Rightarrow> d = CHR ''2'')"

subsection \<open>The list of live connections (server/server.c)\<close>

text \<open>
  The linked list \<open>connections\<close> is a list of connection records, head first; a
  connection is addressed by its position in the list.  \<open>rtp_log\<close> records, in
  order, the calls made to \<open>rtp_request\<close> and \<open>rtp_request_cancel\<close>.
\<close>

datatype rtp_call = Request sockaddr | Cancel sockaddr

record server =
  connections :: "conn list"
  rtp_log :: "rtp_call list"

text \<open>
  Modelled from the spec: \<open>rtp_request\<close> and \<open>rtp_request_cancel\<close> are not among the
  sources.  By the spec, \<open>rtp-request\<close> registers an address as a unicast RTP
  destination and \<open>rtp-cancel\<close> removes it; the set of registered destinations after
  a sequence of calls is computed accordingly (one registration per call, so a
  multiset kept as a list).
\<close>

fun apply_rtp_call :: "rtp_call \<Rightarrow> sockaddr list \<Rightarrow> sockaddr list" where
  "apply_rtp_call (Request d) ds = d # ds"
| "apply_rtp_call (Cancel d) ds = remove1 d ds"

definition destinations :: "rtp_call list \<Rightarrow> sockaddr list" where
  "destinations calls = fold apply_rtp_call calls []"

text \<open>
  A C fault: \<open>strcmp\<close> applied to a null pointer.
\<close>

datatype fault = NullDereference

text \<open>
  The loop of \<open>c_deluser\<close> over the live connections: \<open>strcmp(d->who, vec[0])\<close>
  reads \<open>d->who\<close> whether or not it is null.
\<close>

fun zap_connections :: "string \<Rightarrow> conn list \<Rightarrow> fault + conn list" where
  "zap_connections u [] = Inr []"
| "zap_connections u (d # ds) =
     (case who d of
        None \<Rightarrow> Inl NullDereference
      | Some w \<Rightarrow>
          (case zap_connections u ds of
             Inl e \<Rightarrow> Inl e
           | Inr ds' \<Rightarrow> Inr ((if w = u then d\<lparr>rights := {}\<rparr> else d) # ds')))"

text \<open>
  \<open>remote_userman\<close> is the configuration flag; \<open>trackdb_deluser\<close> (not among the
  sources) is given by its return value on the user name, non-zero for failure.
  The issuing connection is the \<open>i\<close>-th live connection.
\<close>

definition reply :: "conn list \<Rightarrow> nat \<Rightarrow> string \<Rightarrow> conn list" where
  "reply cs i l = cs[i := sink_writes (cs ! i) l]"

definition c_deluser ::
  "bool \<Rightarrow> (string \<Rightarrow> int) \<Rightarrow> conn list \<Rightarrow> nat \<Rightarrow> string \<Rightarrow> fault + conn list" where
  "c_deluser remote_userman trackdb_deluser cs i v0 =
     (if \<not> remote_userman \<and> rights (cs ! i) \<inter> RIGHT__LOCAL = {}
      then Inr (reply cs i ''510 Remote user management is disabled'')
      else if trackdb_deluser v0 \<noteq> 0
      then Inr (reply cs i ''550 Cannot delete user'')
      else case zap_connections v0 cs of
             Inl e \<Rightarrow> Inl e
           | Inr cs' \<Rightarrow> Inr (reply cs' i ''250 User deleted''))"

subsection \<open>RTP stream requests (server/server.c)\<close>

text \<open>
  \<open>getaddrinfo\<close> is a parameter: \<open>None\<close> when it reports an error, otherwise the
  resolved address.
\<close>

definition c_rtp_cancel :: "server \<Rightarrow> nat \<Rightarrow> server" where
  "c_rtp_cancel s i =
     (let c = connections s ! i in
      if \<not> rtp_requested c
      then s\<lparr>connections := reply (connections s) i ''550 No active RTP stream''\<rparr>
      else
        s\<lparr>rtp_log := rtp_log s @ [Cancel (rtp_destination c)],
          connections := reply ((connections s)[i := c\<lparr>rtp_requested := False\<rparr>]) i
                           ''250 Cancelled RTP stream''\<rparr>)"

definition c_rtp_request ::
  "(string \<Rightarrow> string \<Rightarrow> sockaddr option) \<Rightarrow> server \<Rightarrow> nat \<Rightarrow> string \<Rightarrow> string \<Rightarrow> server" where
  "c_rtp_request getaddrinfo s i v0 v1 =
     (case getaddrinfo v0 v1 of
        None \<Rightarrow> s\<lparr>connections := reply (connections s) i ''550 Invalid address''\<rparr>
      | Some res \<Rightarrow>
          let c = connections s ! i;
              log1 = (if rtp_requested c then rtp_log s @ [Cancel (rtp_destination c)]
                      else rtp_log s);
              c1 = c\<lparr>rtp_requested := False\<rparr>;
              c2 = c1\<lparr>rtp_destination := res\<rparr>;
              log2 = log1 @ [Request (rtp_destination c2)];
              c3 = c2\<lparr>rtp_requested := True\<rparr>
          in s\<lparr>rtp_log := log2,
               connections := reply ((connections s)[i := c3]) i ''250 Initiated RTP stream''\<rparr>)"

text \<open>
  \<open>remove_connection\<close>: cancel an active RTP request, then unlink the connection.
\<close>

definition remove_connection :: "server \<Rightarrow> nat \<Rightarrow> server" where
  "remove_connection s i =
     (let c = connections s ! i;
          log1 = (if rtp_requested c then rtp_log s @ [Cancel (rtp_destination c)]
                  else rtp_log s)
      in s\<lparr>rtp_log := log1,
           connections := take i (connections s) @ drop (Suc i) (connections s)\<rparr>)"

text \<open>
  \<open>listen_callback\<close> allocates a zeroed connection, pushes it onto the head of the
  list and sends the greeting; only the fields of the record are kept here.
\<close>

definition new_connection :: "nat \<Rightarrow> 8 word list \<Rightarrow> bool \<Rightarrow> string \<Rightarrow> conn" where
  "new_connection t n p greeting =
     \<lparr>tag = t, who = None, nonce = n, privileged = p, rights = {},
      rtp_requested = False, rtp_destination = ([], []), out = [greeting]\<rparr>"

definition listen_callback :: "server \<Rightarrow> nat \<Rightarrow> 8 word list \<Rightarrow> bool \<Rightarrow> string \<Rightarrow> server" where
  "listen_callback s t n p greeting =
     s\<lparr>connections := new_connection t n p greeting # connections s\<rparr>"

text \<open>The operations on the live list that touch RTP registrations.\<close>

datatype server_op =
    Accept nat "8 word list" bool string
  | RtpRequest nat string string
  | RtpCancel nat
  | RemoveConnection nat

fun server_step ::
  "(string \<Rightarrow> string \<Rightarrow> sockaddr option) \<Rightarrow> server \<Rightarrow> server_op \<Rightarrow> server" where
  "server_step g s (Accept t n p gr) = listen_callback s t n p gr"
| "server_step g s (RtpRequest i v0 v1) =
     (if i < length (connections s) then c_rtp_request g s i v0 v1 else s)"
| "server_step g s (RtpCancel i) =
     (if i < length (connections s) then c_rtp_cancel s i else s)"
| "server_step g s (RemoveConnection i) =
     (if i < length (connections s) then remove_connection s i else s)"

definition server_init :: server where
  "server_init = \<lparr>connections = [], rtp_log = []\<rparr>"

definition registered :: "server \<Rightarrow> sockaddr list" where
  "registered s = map rtp_destination (filter rtp_requested (connections s))"

subsection \<open>Concrete inputs\<close>

definition conn0 :: conn where
  "conn0 = \<lparr>tag = 0, who = None, nonce = [], privileged = False, rights = {},
      rtp_requested = False, rtp_destination = ([], []), out = []\<rparr>"

text \<open>
  A small authentication environment for concrete runs: one confirmed user
  \<open>alice\<close>; the hash primitive is replaced by a stand-in that concatenates the
  algorithm name, the password and one character per byte of the nonce.
\<close>

definition env0 :: auth_env where
  "env0 = \<lparr>wideopen = False,
           authorization_algorithm = ''sha1'',
           trackdb_getuserinfo =
             (\<lambda>u. if u = ''alice'' then Some [(''password'', ''secret''), (''rights'', ''read'')]
                  else None),
           parse_rights = (\<lambda>s. if s = Some ''read'' then Some RIGHT_READ else None),
           authhash =
             (\<lambda>n p a. Some (a @ '':'' @ p @ '':''
                              @ map (\<lambda>b. if b = 0 then CHR ''0'' else CHR ''1'') n)),
           connection_host = (\<lambda>c. Some ''192.0.2.1'')\<rparr>"

definition hls0 :: hls_env where
  "hls0 = \<lparr>hls_enable = False, hls_baseurl = None, playing = None,
            track_rootless = (\<lambda>t. Some t), urlencodestring = (\<lambda>t. t)\<rparr>"

definition admin_conn :: conn where
  "admin_conn = conn0\<lparr>tag := 1, who := Some ''root'', rights := RIGHT_ADMIN \<union> RIGHT__LOCAL\<rparr>"

definition resolve0 :: "string \<Rightarrow> string \<Rightarrow> sockaddr option" where
  "resolve0 h p = (if h = [] then None else Some (h, p))"

text \<open>
  Running a sequence of operations from the empty server, and the invariant that ties
  the registered destinations to the live connections: as multisets, the
  destinations registered by the calls made so far are the \<open>rtp_destination\<close>
  fields of the live connections whose \<open>rtp_requested\<close> flag is set.
\<close>

definition run_server :: "(string \<Rightarrow> string \<Rightarrow> sockaddr option) \<Rightarrow> server_op list \<Rightarrow> server" where
  "run_server g ops = fold (\<lambda>op s. server_step g s op) ops server_init"

definition rtp_inv :: "server \<Rightarrow> bool" where
  "rtp_inv s \<longleftrightarrow> mset (destinations (rtp_log s)) = mset (registered s)"

definition contribution :: "conn \<Rightarrow> sockaddr multiset" where
  "contribution c = (if rtp_requested c then {#rtp_destination c#} else {#})"

definition ops0 :: "server_op list" where
  "ops0 = [Accept 7 [] False ''231 2 sha1 00'', RtpRequest 0 ''10.0.0.5'' ''5004'']"

subsection \<open>System calls and process exits\<close>

text \<open>
  The \<open>errno\<close> values the sources name, and any other by its number.  A call of
  \<open>write\<close>, \<open>writev\<close> or \<open>read\<close> either yields its (non-negative) return value or
  fails with an \<open>errno\<close>.  Results of system calls are inputs of the models.
\<close>

datatype errno = EINTR | EAGAIN | EPIPE | ETIMEDOUT | Errno nat

datatype io_result = Done nat | Failed errno

text \<open>
  The loop \<open>do \<dots> while(written_bytes < 0 && errno == EINTR)\<close> over the successive
  results of \<open>writev\<close>: the first result that is not \<open>EINTR\<close>, or \<open>None\<close> when none of
  the supplied results ends the loop.
\<close>

fun retry_eintr :: "io_result list \<Rightarrow> io_result option" where
  "retry_eintr [] = None"
| "retry_eintr (r # rs) = (if r = Failed EINTR then retry_eintr rs else Some r)"

text \<open>
  Ways a function of the sender does not return to its caller: \<open>fatal\<close> ends the
  process, an \<open>assert\<close> fails, a division by zero, or the retry loop has not ended
  on the supplied results.
\<close>

datatype stop = Fatal_exit | Assertion_failed | Division_by_zero | Interrupted

text \<open>C division of \<open>int\<close> truncates towards zero.\<close>

definition tdiv :: "int \<Rightarrow> int \<Rightarrow> int" where
  "tdiv a b = sgn a * sgn b * (\<bar>a\<bar> div \<bar>b\<bar>)"

subsection \<open>RTP header (lib/rtp.h)\<close>

text \<open>
  The fields hold the values before \<open>htons\<close>/\<open>htonl\<close>, which only fix the byte order
  on the wire.
\<close>

record rtp_header =
  vpxcc :: "8 word"
  mpt :: "8 word"
  seq :: "16 word"
  timestamp :: "32 word"
  ssrc :: "32 word"

subsection \<open>The RTP play backend: \<open>rtp_play\<close> (lib/uaudio-rtp.c)\<close>

text \<open>
  Modelled from the spec: the \<open>UAUDIO_*\<close> flag bits are declared in \<open>uaudio.h\<close>,
  which is not among the sources; the \<open>flags\<close> argument is the set of the bits that
  are set.  \<open>uaudio_schedule_sync\<close> and \<open>uaudio_schedule_sent\<close> are not among the
  sources either: the value returned by the former is an argument, the arguments
  passed to the latter are collected in \<open>schedule_sent\<close>.  \<open>sent_packets\<close> collects
  the datagrams (header and samples) that \<open>writev\<close> accepted on \<open>rtp_fd\<close>.
\<close>

datatype uaudio_flag = UAUDIO_PAUSE | UAUDIO_RESUME | UAUDIO_PLAYING | UAUDIO_PAUSED

record uaudio_rtp =
  rtp_payload :: "8 word"
  rtp_id :: "32 word"
  rtp_base :: "32 word"
  rtp_sequence :: "16 word"
  rtp_errors :: int
  sent_packets :: "(rtp_header \<times> 16 word list) list"
  schedule_sent :: "nat list"

definition rtp_play ::
  "uaudio_rtp \<Rightarrow> 16 word list \<Rightarrow> uaudio_flag set \<Rightarrow> 32 word \<Rightarrow> io_result list
     \<Rightarrow> stop + (uaudio_rtp \<times> nat)" where
  "rtp_play s buffer flags sync ws =
     (let nsamples = length buffer;
          header0 = \<lparr>vpxcc = push_bit 6 2, mpt = rtp_payload s, seq = rtp_sequence s,
                     timestamp = 0, ssrc = rtp_id s\<rparr>;
          s1 = s\<lparr>rtp_sequence := rtp_sequence s + 1\<rparr>;
          header1 = (if UAUDIO_RESUME \<in> flags then header0\<lparr>mpt := mpt header0 OR 0x80\<rparr>
                     else header0);
          header = header1\<lparr>timestamp := rtp_base s + sync\<rparr>
      in if UAUDIO_PAUSED \<in> flags
         then Inr (s1\<lparr>schedule_sent := schedule_sent s1 @ [nsamples]\<rparr>, nsamples)
         else (case retry_eintr ws of
                 None \<Rightarrow> Inl Interrupted
               | Some (Failed e) \<Rightarrow>
                   let s2 = s1\<lparr>rtp_errors := rtp_errors s1 + 1\<rparr>
                   in if rtp_errors s2 = 10 then Inl Fatal_exit else Inr (s2, 0)
               | Some (Done n) \<Rightarrow>
                   Inr (s1\<lparr>rtp_errors := tdiv (rtp_errors s1) 2,
                           sent_packets := sent_packets s1 @ [(header, buffer)],
                           schedule_sent := schedule_sent s1 @ [nsamples]\<rparr>, nsamples)))"

subsection \<open>The network speaker backend: \<open>network_play\<close> (server/speaker-network.c)\<close>

text \<open>
  The file's static variables, the flag \<open>idled\<close> it shares with the speaker's main
  loop, and the datagrams \<open>writev\<close> accepted on \<open>bfd\<close> (header and number of payload
  bytes).  \<open>header_times\<close> is not a variable of the program: it keeps, for each
  datagram sent, the value of \<open>rtp_time\<close> that its 32-bit header timestamp was
  truncated from.
\<close>

record network =
  rtp_time :: "64 word"
  rtp_seq :: "16 word"
  network_rtp_id :: "32 word"
  audio_errors :: int
  idled :: bool
  bfd_packets :: "(rtp_header \<times> 64 word) list"
  header_times :: "64 word list"

text \<open>
  One call: the number of frames asked for, \<open>device_bpf\<close>, the microseconds
  \<open>tvsub_us(now, rtp_time_0)\<close> elapsed at the call, the rate and channels of the
  playing track's format, and the successive results of \<open>writev\<close>.  \<open>uint64_t\<close> and
  \<open>size_t\<close> are 64-bit words; an \<open>int\<close> operand of a 64-bit unsigned operation is
  converted by \<open>word_of_int\<close>.
\<close>

record play_call =
  frames :: "64 word"
  device_bpf :: "64 word"
  delta :: "64 word"
  rate :: int
  channels :: int
  writev :: "io_result list"

definition NETWORK_BYTES :: int where
  "NETWORK_BYTES = 1500 - 8 - 40 - 8"

definition sizeof_rtp_header :: nat where
  "sizeof_rtp_header = 12"

definition UINT64_MAX :: "64 word" where
  "UINT64_MAX = - 1"

text \<open>The target computed after an idle period, rounded down to an even number.\<close>

definition target_rtp_time :: "play_call \<Rightarrow> 64 word" where
  "target_rtp_time a =
     ((delta a * word_of_int (rate a) * word_of_int (channels a)) div 1000000) AND NOT 1"

text \<open>The block guarded by \<open>if(idled)\<close>.\<close>

definition idle_fixup :: "network \<Rightarrow> play_call \<Rightarrow> stop + network" where
  "idle_fixup s a =
     (if idled s
      then if \<not> delta a \<le> UINT64_MAX div 88200 then Inl Assertion_failed
           else if target_rtp_time a > rtp_time s
                then Inr (s\<lparr>rtp_time := target_rtp_time a\<rparr>)
                else Inr s
      else Inr s)"

text \<open>The size of the payload after the clamp to one network packet.\<close>

definition payload_bytes :: "play_call \<Rightarrow> stop + 64 word" where
  "payload_bytes a =
     (let bytes = frames a * device_bpf a;
          room = word_of_int NETWORK_BYTES - word_of_nat sizeof_rtp_header
      in if bytes > room
         then if device_bpf a = 0 then Inl Division_by_zero
              else Inr (room - room mod device_bpf a)
         else Inr bytes)"

definition network_play :: "network \<Rightarrow> play_call \<Rightarrow> stop + (network \<times> 64 word)" where
  "network_play s a =
     (case idle_fixup s a of
        Inl e \<Rightarrow> Inl e
      | Inr s1 \<Rightarrow>
          let header = \<lparr>vpxcc = push_bit 6 2,
                        mpt = (if idled s1 then 0x80 else 0x00) OR 10,
                        seq = rtp_seq s1,
                        timestamp = ucast (rtp_time s1),
                        ssrc = network_rtp_id s1\<rparr>;
              s2 = s1\<lparr>rtp_seq := rtp_seq s1 + 1, idled := False\<rparr>
          in (case payload_bytes a of
                Inl e \<Rightarrow> Inl e
              | Inr bytes \<Rightarrow>
                  (case retry_eintr (writev a) of
                     None \<Rightarrow> Inl Interrupted
                   | Some (Failed e) \<Rightarrow>
                       let s3 = s2\<lparr>audio_errors := audio_errors s2 + 1\<rparr>
                       in if audio_errors s3 = 10 then Inl Fatal_exit else Inr (s3, 0)
                   | Some (Done n) \<Rightarrow>
                       let s3 = s2\<lparr>audio_errors := tdiv (audio_errors s2) 2,
                                   bfd_packets := bfd_packets s2 @ [(header, bytes)],
                                   header_times := header_times s2 @ [rtp_time s1]\<rparr>;
                           written_bytes = int n - int sizeof_rtp_header
                       in if device_bpf a = 0 then Inl Division_by_zero
                          else
                            let written_frames = word_of_int written_bytes div device_bpf a
                            in Inr (s3\<lparr>rtp_time := rtp_time s3
                                          + written_frames * word_of_int (channels a)\<rparr>,
                                    written_frames))))"

text \<open>
  The sender between calls: \<open>rtp_time\<close> is static to the file and written by
  \<open>network_play\<close> only; the speaker's main loop (not among the sources) sets
  \<open>idled\<close> when it goes idle, which is all that a pause, a resume or an idle gap
  can change in the sender's state.
\<close>

datatype sender_event = Play play_call | Idle

fun sender_step :: "network \<Rightarrow> sender_event \<Rightarrow> stop + network" where
  "sender_step s (Play a) = (case network_play s a of Inl e \<Rightarrow> Inl e | Inr (s', n) \<Rightarrow> Inr s')"
| "sender_step s Idle = Inr (s\<lparr>idled := True\<rparr>)"

fun sender_run :: "network \<Rightarrow> sender_event list \<Rightarrow> stop + network" where
  "sender_run s [] = Inr s"
| "sender_run s (e # es) =
     (case sender_step s e of Inl x \<Rightarrow> Inl x | Inr s' \<Rightarrow> sender_run s' es)"

text \<open>
  The 64-bit counter does not wrap in a call: the samples it adds to \<open>rtp_time\<close>
  fit below \<open>2 ^ 64\<close>.  \<open>steady\<close> says so for every call of a run.
\<close>

definition no_wrap :: "network \<Rightarrow> play_call \<Rightarrow> bool" where
  "no_wrap s a =
     (case idle_fixup s a of
        Inl e \<Rightarrow> True
      | Inr s1 \<Rightarrow>
          (case retry_eintr (writev a) of
             Some (Done n) \<Rightarrow>
               unat (rtp_time s1)
                 + unat (word_of_int (int n - int sizeof_rtp_header) div device_bpf a :: 64 word)
                   * unat (word_of_int (channels a) :: 64 word) < 2 ^ 64
           | _ \<Rightarrow> True))"

fun steady :: "network \<Rightarrow> sender_event list \<Rightarrow> bool" where
  "steady s [] = True"
| "steady s (Idle # es) = steady (s\<lparr>idled := True\<rparr>) es"
| "steady s (Play a # es) =
     (no_wrap s a \<and>
      (case network_play s a of Inl e \<Rightarrow> True | Inr (s', n) \<Rightarrow> steady s' es))"

text \<open>
  The record of the datagrams sent is consistent: each header timestamp is the low
  32 bits of the recorded value of \<open>rtp_time\<close>, the recorded values are in
  non-decreasing order and none exceeds the current \<open>rtp_time\<close>.
\<close>

definition stamped :: "network \<Rightarrow> bool" where
  "stamped s \<longleftrightarrow>
     map (\<lambda>p. timestamp (fst p)) (bfd_packets s) = map ucast (header_times s)
     \<and> sorted (header_times s)
     \<and> list_all (\<lambda>t. t \<le> rtp_time s) (header_times s)"

definition net0 :: network where
  "net0 = \<lparr>rtp_time = 4294967294, rtp_seq = 0, network_rtp_id = 0, audio_errors = 0,
            idled = False, bfd_packets = [], header_times = []\<rparr>"

definition call0 :: play_call where
  "call0 = \<lparr>frames = 1, device_bpf = 4, delta = 0, rate = 44100, channels = 2,
             writev = [Done 16]\<rparr>"

definition rtp0 :: uaudio_rtp where
  "rtp0 = \<lparr>rtp_payload = 10, rtp_id = 0, rtp_base = 0, rtp_sequence = 0, rtp_errors = 0,
            sent_packets = [], schedule_sent = []\<rparr>"

definition call1 :: play_call where
  "call1 = call0\<lparr>delta := 1000000000000\<rparr>"

subsection \<open>The event loop, buffered writer and buffered reader (lib/event.c)\<close>

text \<open>
  The model holds one event source with one buffered writer and one buffered reader.
  A \<open>struct timeval\<close> is kept as its number of microseconds.  Allocated
  \<open>struct timeout\<close>s live in \<open>timeout_store\<close>; a timeout handle (a pointer in C) is
  an index into it, and \<open>timeouts\<close> holds the handles that are in the heap
  \<open>ev->timeouts\<close>.  The callback of a timeout is named by a constructor; its
  argument \<open>u\<close> is the writer or the reader of the model.
\<close>

type_synonym timeval = int

datatype timeout_callback = Writer_shutdown | Writer_timebound_exceeded | Reader_shutdown

record timeout =
  t_when :: timeval
  t_callback :: timeout_callback
  t_active :: bool

datatype ev_fdmode = ev_read | ev_write | ev_except

text \<open>
  Where an effect happens: inside a timeout callback fired by \<open>ev_run\<close> (with the
  time the timeout was registered for; \<open>0\<close> for a zero-delay timeout), inside a
  file descriptor callback called by \<open>ev_run\<close>, or inside a direct call by the
  application.
\<close>

datatype call_context = In_timeout timeval | In_fd_callback | In_call

text \<open>
  The effects that leave the module: the system calls on the descriptor and the
  calls of the user's callbacks (the writer's \<open>callback\<close> with \<open>w->error\<close>, the
  reader's \<open>callback\<close> with its end-of-file flag, the reader's \<open>error_callback\<close>).
  The user's callbacks are taken to return 0, as those of server/server.c do.
\<close>

datatype effect =
    Sys_shutdown_wr int
  | Sys_shutdown_rd int
  | Sys_close int
  | Writer_callback "errno option"
  | Reader_callback bool
  | Reader_error_callback errno

text \<open>
  \<open>fds\<close> and \<open>enabled\<close> are, per mode, the table \<open>ev->mode[mode].fds\<close> and the
  descriptor set \<open>ev->mode[mode].enabled\<close>.  The fields \<open>w_\<dots>\<close> are those of
  \<open>struct ev_writer\<close>, the fields \<open>r_\<dots>\<close> those of \<open>struct ev_reader\<close>; \<open>w_b\<close> is
  the unsent part \<open>b.start .. b.end\<close> of the writer's buffer; \<open>w_reader\<close> and
  \<open>r_writer\<close> say whether the tie pointers are non-null; a null error code
  \<open>0\<close> is \<open>None\<close>.  \<open>aborted\<close> is set when an \<open>assert\<close> fails: the process stops there.
\<close>

record ev_state =
  timeout_store :: "timeout list"
  timeouts :: "nat list"
  fds :: "ev_fdmode \<Rightarrow> int list"
  enabled :: "ev_fdmode \<Rightarrow> int set"
  aborted :: bool
  w_fd :: int
  w_b :: string
  w_eof :: bool
  w_timebound :: int
  w_spacebound :: int
  w_error :: "errno option"
  w_timeout :: "nat option"
  w_reader :: bool
  w_abandoned :: bool
  r_fd :: int
  r_b :: string
  r_eof :: bool
  r_error :: "errno option"
  r_writer :: bool
  trace :: "(call_context \<times> effect) list"

definition FD_SETSIZE :: int where
  "FD_SETSIZE = 1024"

definition emit :: "call_context \<Rightarrow> effect \<Rightarrow> ev_state \<Rightarrow> ev_state" where
  "emit ctx e s = s\<lparr>trace := trace s @ [(ctx, e)]\<rparr>"

definition ev_fd :: "ev_state \<Rightarrow> ev_fdmode \<Rightarrow> int \<Rightarrow> ev_state option" where
  "ev_fd s mode fd =
     (if fd < 0 \<or> fd \<ge> FD_SETSIZE then None
      else Some (s\<lparr>fds := (fds s)(mode := fds s mode @ [fd]),
                   enabled := (enabled s)(mode := insert fd (enabled s mode))\<rparr>))"

text \<open>
  \<open>ev_fd_cancel\<close>: find the first entry for the descriptor (an \<open>assert\<close> requires
  one), move the last entry into its place and drop the last slot.
\<close>

definition ev_fd_cancel :: "ev_state \<Rightarrow> ev_fdmode \<Rightarrow> int \<Rightarrow> ev_state" where
  "ev_fd_cancel s mode fd =
     (let n = length (takeWhile (\<lambda>x. x \<noteq> fd) (fds s mode)) in
      if \<not> n < length (fds s mode) then s\<lparr>aborted := True\<rparr>
      else s\<lparr>fds := (fds s)(mode := butlast ((fds s mode)[n := last (fds s mode)])),
             enabled := (enabled s)(mode := enabled s mode - {fd})\<rparr>)"

definition ev_fd_enable :: "ev_state \<Rightarrow> ev_fdmode \<Rightarrow> int \<Rightarrow> ev_state" where
  "ev_fd_enable s mode fd =
     (if \<not> fd \<ge> 0 then s\<lparr>aborted := True\<rparr>
      else s\<lparr>enabled := (enabled s)(mode := insert fd (enabled s mode))\<rparr>)"

text \<open>
  \<open>ev_fd_disable\<close> has no \<open>assert\<close>: it clears the descriptor from the set and
  returns 0 for every descriptor.
\<close>

definition ev_fd_disable :: "ev_state \<Rightarrow> ev_fdmode \<Rightarrow> int \<Rightarrow> ev_state" where
  "ev_fd_disable s mode fd = s\<lparr>enabled := (enabled s)(mode := enabled s mode - {fd})\<rparr>"

text \<open>
  \<open>ev_timeout\<close> yields the new state and the handle; a null \<open>when\<close> (\<open>None\<close>)
  leaves the time of the zeroed structure, 0.
\<close>

definition ev_timeout ::
  "ev_state \<Rightarrow> timeval option \<Rightarrow> timeout_callback \<Rightarrow> ev_state \<times> nat" where
  "ev_timeout s when cb =
     (let t = \<lparr>t_when = (case when of None \<Rightarrow> 0 | Some tv \<Rightarrow> tv),
                t_callback = cb, t_active = True\<rparr>;
          h = length (timeout_store s)
      in (s\<lparr>timeout_store := timeout_store s @ [t], timeouts := timeouts s @ [h]\<rparr>, h))"

definition ev_timeout_cancel :: "ev_state \<Rightarrow> nat option \<Rightarrow> ev_state" where
  "ev_timeout_cancel s handle =
     (case handle of
        None \<Rightarrow> s
      | Some h \<Rightarrow> s\<lparr>timeout_store := (timeout_store s)[h := (timeout_store s ! h)\<lparr>t_active := False\<rparr>]\<rparr>)"

definition writer_shutdown :: "call_context \<Rightarrow> ev_state \<Rightarrow> ev_state" where
  "writer_shutdown ctx s =
     (if w_fd s = - 1 then s
      else
        let s1 = ev_timeout_cancel s (w_timeout s);
            s2 = ev_fd_cancel s1 ev_write (w_fd s1);
            s3 = s2\<lparr>w_timeout := None\<rparr>;
            s4 = (if w_reader s3
                  then emit ctx (Sys_shutdown_wr (w_fd s3)) (s3\<lparr>r_writer := False\<rparr>)
                  else emit ctx (Sys_close (w_fd s3)) s3);
            s5 = s4\<lparr>w_fd := - 1\<rparr>
        in emit ctx (Writer_callback (w_error s5)) s5)"

definition writer_timebound_exceeded :: "call_context \<Rightarrow> ev_state \<Rightarrow> ev_state" where
  "writer_timebound_exceeded ctx s =
     (let s1 = (if \<not> w_abandoned s then s\<lparr>w_abandoned := True, w_error := Some ETIMEDOUT\<rparr>
                else s)
      in writer_shutdown ctx s1)"

text \<open>\<open>now\<close> is the time \<open>xgettimeofday\<close> reads; \<open>timebound\<close> is in seconds.\<close>

definition writer_set_timebound :: "timeval \<Rightarrow> ev_state \<Rightarrow> ev_state" where
  "writer_set_timebound now s =
     (if w_timebound s \<noteq> 0 \<and> w_timeout s = None
      then let (s1, h) = ev_timeout s (Some (now + w_timebound s * 1000000))
                           Writer_timebound_exceeded
           in s1\<lparr>w_timeout := Some h\<rparr>
      else s)"

text \<open>
  \<open>writer_callback\<close>, given the result of its \<open>write\<close> (which returns at most the
  number of bytes offered).
\<close>

definition writer_callback :: "call_context \<Rightarrow> timeval \<Rightarrow> io_result \<Rightarrow> ev_state \<Rightarrow> ev_state" where
  "writer_callback ctx now res s =
     (case res of
        Done n \<Rightarrow>
          let s1 = s\<lparr>w_b := drop n (w_b s)\<rparr>;
              s2 = ev_timeout_cancel s1 (w_timeout s1);
              s3 = s2\<lparr>w_timeout := None\<rparr>
          in if w_b s3 = []
             then if w_eof s3 then writer_shutdown ctx (s3\<lparr>w_error := None\<rparr>)
                  else ev_fd_disable s3 ev_write (w_fd s)
             else writer_set_timebound now s3
      | Failed e \<Rightarrow>
          if e = EINTR \<or> e = EAGAIN then s
          else writer_shutdown ctx (s\<lparr>w_error := Some e\<rparr>))"

text \<open>
  \<open>ev_writer_write\<close>, the sink's write callback.  (A write after shutdown is only
  logged.)
\<close>

definition ev_writer_write :: "timeval \<Rightarrow> ev_state \<Rightarrow> string \<Rightarrow> ev_state" where
  "ev_writer_write now s data =
     (let n = int (length data) in
      if n = 0 then s
      else if w_spacebound s \<noteq> 0 \<and> int (length (w_b s)) + n > w_spacebound s
      then if \<not> w_abandoned s
           then let s1 = s\<lparr>w_abandoned := True\<rparr>;
                    s2 = ev_fd_disable s1 ev_write (w_fd s1);
                    s3 = s2\<lparr>w_error := Some EPIPE\<rparr>
                in fst (ev_timeout s3 None Writer_shutdown)
           else s
      else let s1 = (if w_b s = [] then ev_fd_enable s ev_write (w_fd s) else s);
               s2 = s1\<lparr>w_b := w_b s1 @ data\<rparr>
           in writer_set_timebound now s2)"

definition ev_writer_new :: "ev_state \<Rightarrow> int \<Rightarrow> ev_state option" where
  "ev_writer_new s fd =
     (let s0 = s\<lparr>w_fd := fd, w_b := [], w_eof := False, w_timebound := 10 * 60,
                 w_spacebound := 512 * 1024, w_error := None, w_timeout := None,
                 w_reader := False, w_abandoned := False\<rparr>
      in case ev_fd s0 ev_write fd of
           None \<Rightarrow> None
         | Some s1 \<Rightarrow> Some (ev_fd_disable s1 ev_write fd))"

definition ev_writer_close :: "ev_state \<Rightarrow> ev_state" where
  "ev_writer_close s =
     (if w_eof s then s
      else let s1 = s\<lparr>w_eof := True\<rparr>
           in if w_b s1 = []
              then fst (ev_timeout (s1\<lparr>w_error := None\<rparr>) None Writer_shutdown)
              else s1)"

definition reader_shutdown :: "call_context \<Rightarrow> ev_state \<Rightarrow> ev_state" where
  "reader_shutdown ctx s =
     (if r_fd s = - 1 then s
      else
        let s1 = ev_fd_cancel s ev_read (r_fd s);
            s2 = s1\<lparr>r_eof := True\<rparr>;
            s3 = (if r_writer s2
                  then emit ctx (Sys_shutdown_rd (r_fd s2)) (s2\<lparr>w_reader := False\<rparr>)
                  else emit ctx (Sys_close (r_fd s2)) s2);
            s4 = s3\<lparr>r_fd := - 1\<rparr>
        in case r_error s4 of
             Some e \<Rightarrow> emit ctx (Reader_error_callback e) s4
           | None \<Rightarrow> s4)"

text \<open>The result of the reader's \<open>read\<close>: the bytes read (none at end of file) or an error.\<close>

datatype read_result = Got string | Read_failed errno

definition reader_callback :: "call_context \<Rightarrow> read_result \<Rightarrow> ev_state \<Rightarrow> ev_state" where
  "reader_callback ctx res s =
     (case res of
        Got d \<Rightarrow>
          if d \<noteq> []
          then emit ctx (Reader_callback False) (s\<lparr>r_b := r_b s @ d\<rparr>)
          else let s1 = ev_fd_disable s ev_read (r_fd s);
                   s2 = fst (ev_timeout s1 None Reader_shutdown)
               in emit ctx (Reader_callback True) s2
      | Read_failed e \<Rightarrow>
          if e = EINTR \<or> e = EAGAIN then s
          else reader_shutdown ctx (s\<lparr>r_error := Some e\<rparr>))"

definition ev_reader_new :: "ev_state \<Rightarrow> int \<Rightarrow> ev_state option" where
  "ev_reader_new s fd =
     ev_fd (s\<lparr>r_fd := fd, r_b := [], r_eof := False, r_error := None, r_writer := False\<rparr>)
       ev_read fd"

definition ev_reader_cancel :: "ev_state \<Rightarrow> ev_state" where
  "ev_reader_cancel s =
     (if r_fd s = - 1 then s
      else fst (ev_timeout (ev_fd_disable s ev_read (r_fd s)) None Reader_shutdown))"

definition ev_tie :: "ev_state \<Rightarrow> ev_state" where
  "ev_tie s =
     (if r_writer s \<or> w_reader s then s\<lparr>aborted := True\<rparr>
      else s\<lparr>r_writer := True, w_reader := True\<rparr>)"

text \<open>
  The timeout phase of one iteration of \<open>ev_run\<close> at time \<open>now\<close>: first every
  timeout of the heap whose time has come is taken out, and those still active are
  kept, in the order of their times; then the callbacks of the kept ones are run.
  (heap.h is not among the sources: among timeouts of equal time the order of
  registration is taken.)
\<close>

definition fire :: "nat \<Rightarrow> ev_state \<Rightarrow> ev_state" where
  "fire h s =
     (let t = timeout_store s ! h; ctx = In_timeout (t_when t) in
      case t_callback t of
        Writer_shutdown \<Rightarrow> writer_shutdown ctx s
      | Writer_timebound_exceeded \<Rightarrow> writer_timebound_exceeded ctx s
      | Reader_shutdown \<Rightarrow> reader_shutdown ctx s)"

definition run_timeouts :: "timeval \<Rightarrow> ev_state \<Rightarrow> ev_state" where
  "run_timeouts now s =
     (let due = filter (\<lambda>h. t_when (timeout_store s ! h) \<le> now) (timeouts s);
          taken = sort_key (\<lambda>h. t_when (timeout_store s ! h)) due;
          kept = filter (\<lambda>h. t_active (timeout_store s ! h)) taken;
          s1 = s\<lparr>timeouts := filter (\<lambda>h. \<not> t_when (timeout_store s ! h) \<le> now) (timeouts s)\<rparr>
      in fold fire kept s1)"

text \<open>
  What can happen to the pair: calls by the application (\<open>ev_writer_write\<close> through
  the sink, \<open>ev_writer_close\<close>, \<open>ev_writer_flush\<close>, \<open>ev_reader_cancel\<close>) and the
  phases of \<open>ev_run\<close> (the timeouts; a callback for a descriptor that is registered
  and enabled in its mode).  Nothing happens after an abort.
\<close>

datatype ev_op =
    App_write timeval string
  | App_close
  | App_flush timeval io_result
  | App_cancel
  | Loop_timeouts timeval
  | Loop_writable timeval io_result
  | Loop_readable read_result

definition ev_step :: "ev_state \<Rightarrow> ev_op \<Rightarrow> ev_state" where
  "ev_step s op =
     (if aborted s then s
      else case op of
        App_write now d \<Rightarrow> ev_writer_write now s d
      | App_close \<Rightarrow> ev_writer_close s
      | App_flush now res \<Rightarrow> writer_callback In_call now res s
      | App_cancel \<Rightarrow> ev_reader_cancel s
      | Loop_timeouts now \<Rightarrow> run_timeouts now s
      | Loop_writable now res \<Rightarrow>
          if w_fd s \<in> set (fds s ev_write) \<and> w_fd s \<in> enabled s ev_write
          then writer_callback In_fd_callback now res s else s
      | Loop_readable res \<Rightarrow>
          if r_fd s \<in> set (fds s ev_read) \<and> r_fd s \<in> enabled s ev_read
          then reader_callback In_fd_callback res s else s)"

definition ev_run :: "ev_state \<Rightarrow> ev_op list \<Rightarrow> ev_state" where
  "ev_run s ops = fold (\<lambda>op s. ev_step s op) ops s"

text \<open>A new event source, and a writer and a reader made on one descriptor and tied.\<close>

definition ev_new :: ev_state where
  "ev_new = \<lparr>timeout_store = [], timeouts = [], fds = (\<lambda>m. []), enabled = (\<lambda>m. {}),
             aborted = False,
             w_fd = - 1, w_b = [], w_eof = False, w_timebound = 0, w_spacebound = 0,
             w_error = None, w_timeout = None, w_reader = False, w_abandoned = False,
             r_fd = - 1, r_b = [], r_eof = False, r_error = None, r_writer = False,
             trace = []\<rparr>"

definition tied_pair :: "int \<Rightarrow> ev_state option" where
  "tied_pair fd =
     (case ev_writer_new ev_new fd of
        None \<Rightarrow> None
      | Some s1 \<Rightarrow>
          (case ev_reader_new s1 fd of
             None \<Rightarrow> None
           | Some s2 \<Rightarrow> Some (ev_tie s2)))"

definition closes :: "ev_state \<Rightarrow> (call_context \<times> effect) list" where
  "closes s = filter (\<lambda>(ctx, e). case e of Sys_close fd \<Rightarrow> True | _ \<Rightarrow> False) (trace s)"

text \<open>
  The state of a pair tied on descriptor \<open>fd\<close>: each side still holds the
  descriptor or has shut down (\<open>-1\<close>); a side that is up is registered in its mode;
  a side that is up points to the other side exactly while that one is up; and the
  descriptor has been closed once if both sides are down and not at all otherwise,
  and half-shut once as soon as one side is down.
\<close>

definition half_shuts :: "ev_state \<Rightarrow> (call_context \<times> effect) list" where
  "half_shuts s =
     filter (\<lambda>(ctx, e). case e of Sys_shutdown_wr fd \<Rightarrow> True | Sys_shutdown_rd fd \<Rightarrow> True
                            | _ \<Rightarrow> False) (trace s)"

definition tie_inv :: "int \<Rightarrow> ev_state \<Rightarrow> bool" where
  "tie_inv fd s \<longleftrightarrow>
     0 \<le> fd
     \<and> (w_fd s = fd \<or> w_fd s = - 1) \<and> (r_fd s = fd \<or> r_fd s = - 1)
     \<and> fds s ev_write = (if w_fd s = - 1 then [] else [fd])
     \<and> fds s ev_read = (if r_fd s = - 1 then [] else [fd])
     \<and> (if w_fd s = - 1 then True else w_reader s = (r_fd s \<noteq> - 1))
     \<and> (if r_fd s = - 1 then True else r_writer s = (w_fd s \<noteq> - 1))
     \<and> length (closes s) = (if w_fd s = - 1 \<and> r_fd s = - 1 then 1 else 0)
     \<and> length (half_shuts s) = (if w_fd s = - 1 \<or> r_fd s = - 1 then 1 else 0)"

text \<open>
  A zero-delay timeout for a callback, and the fact that going from \<open>s\<close> to \<open>s'\<close>
  has registered one.
\<close>

definition zero_delay :: "timeout_callback \<Rightarrow> timeout" where
  "zero_delay cb = \<lparr>t_when = 0, t_callback = cb, t_active = True\<rparr>"

definition scheduled :: "ev_state \<Rightarrow> ev_state \<Rightarrow> timeout_callback \<Rightarrow> bool" where
  "scheduled s s' cb \<longleftrightarrow>
     timeout_store s' = timeout_store s @ [zero_delay cb]
     \<and> timeouts s' = timeouts s @ [length (timeout_store s)]"

definition pair5 :: ev_state where
  "pair5 = ev_new\<lparr>w_fd := 5, w_timebound := 600, w_spacebound := 524288,
                  fds := (\<lambda>m. [])(ev_write := [5], ev_read := [5]),
                  enabled := (\<lambda>m. {})(ev_write := {}, ev_read := {5}),
                  r_fd := 5, r_writer := True, w_reader := True\<rparr>"

text \<open>
  A client sends its commands and closes its sending side while a reply is still
  buffered: the reader sees end of file, the server closes the writer, the loop runs
  the reader's shutdown, and the writer then drains its buffer.
\<close>

definition ops5 :: "ev_op list" where
  "ops5 = [App_write 0 ''231 hello'', Loop_readable (Got []), App_close, Loop_timeouts 1,
           Loop_writable 2 (Done 9)]"

text \<open>
  The writer is waiting on its time bound since \<open>t0\<close>: it is up, registered and
  enabled for writing, not abandoned, has the default bounds and unsent data, and
  its time-bound timeout, registered for \<open>t0\<close> plus 600 seconds, is the one
  active timeout in the heap.
\<close>

definition armed :: "timeval \<Rightarrow> ev_state \<Rightarrow> bool" where
  "armed t0 s \<longleftrightarrow>
     \<not> aborted s \<and> 0 \<le> w_fd s \<and> \<not> w_abandoned s
     \<and> w_timebound s = 600 \<and> w_spacebound s = 524288 \<and> w_b s \<noteq> []
     \<and> fds s ev_write = [w_fd s] \<and> w_fd s \<in> enabled s ev_write
     \<and> list_all (\<lambda>h. h < length (timeout_store s)) (timeouts s)
     \<and> (case w_timeout s of
          None \<Rightarrow> False
        | Some h \<Rightarrow>
            filter (\<lambda>h'. t_active (timeout_store s ! h')) (timeouts s) = [h]
            \<and> timeout_store s ! h
                = \<lparr>t_when = t0 + 600000000, t_callback = Writer_timebound_exceeded,
                   t_active = True\<rparr>)"

text \<open>
  A writer that is up with an empty buffer, the default bounds, no time-bound timeout
  and no active timeout in the heap.
\<close>

definition idle_writer :: "ev_state \<Rightarrow> bool" where
  "idle_writer s \<longleftrightarrow>
     \<not> aborted s \<and> 0 \<le> w_fd s \<and> \<not> w_abandoned s
     \<and> w_timebound s = 600 \<and> w_spacebound s = 524288 \<and> w_b s = []
     \<and> fds s ev_write = [w_fd s] \<and> w_timeout s = None
     \<and> list_all (\<lambda>h. h < length (timeout_store s)) (timeouts s)
     \<and> filter (\<lambda>h'. t_active (timeout_store s ! h')) (timeouts s) = []"

text \<open>
  A stretch of events without a successful write and before the time bound that
  started at \<open>t0\<close> expires: attempts to write that fail with \<open>EAGAIN\<close> or
  \<open>EINTR\<close>, further writes by the application that stay within the space bound,
  data arriving at the reader, and iterations of the loop before \<open>t0\<close> plus 600
  seconds.
\<close>

fun quiet_op :: "timeval \<Rightarrow> ev_state \<Rightarrow> ev_op \<Rightarrow> bool" where
  "quiet_op t0 s (App_write now d) = (int (length (w_b s)) + int (length d) \<le> 524288)"
| "quiet_op t0 s App_close = False"
| "quiet_op t0 s (App_flush now res) = (res = Failed EAGAIN \<or> res = Failed EINTR)"
| "quiet_op t0 s App_cancel = False"
| "quiet_op t0 s (Loop_timeouts now) = (now < t0 + 600000000)"
| "quiet_op t0 s (Loop_writable now res) = (res = Failed EAGAIN \<or> res = Failed EINTR)"
| "quiet_op t0 s (Loop_readable res) = (case res of Got d \<Rightarrow> d \<noteq> [] | Read_failed e \<Rightarrow> False)"

fun quiet_run :: "timeval \<Rightarrow> ev_state \<Rightarrow> ev_op list \<Rightarrow> bool" where
  "quiet_run t0 s [] = True"
| "quiet_run t0 s (op # ops) = (quiet_op t0 s op \<and> quiet_run t0 (ev_step s op) ops)"

text \<open>
  A writer whose buffer holds all but one byte of the space bound, and a quiet
  stretch of ten minutes less one microsecond.
\<close>

definition nearly_full :: ev_state where
  "nearly_full = pair5\<lparr>w_b := replicate 524287 CHR ''x''\<rparr>"

definition quiet5 :: "ev_op list" where
  "quiet5 = [Loop_writable 1 (Failed EAGAIN), App_write 2 ''more'', Loop_readable (Got ''nop''),
             Loop_timeouts 599999999]"

section \<open>Verification\<close>

lemmas RIGHT_defs =
  RIGHT_READ_def RIGHT_PLAY_def RIGHT_MOVE__MASK_def RIGHT_REMOVE__MASK_def
  RIGHT_SCRATCH__MASK_def RIGHT_VOLUME_def RIGHT_ADMIN_def RIGHT_RESCAN_def
  RIGHT_REGISTER_def RIGHT_USERINFO_def RIGHT_PREFS_def RIGHT_GLOBAL_PREFS_def
  RIGHT_PAUSE_def RIGHT__LOCAL_def

lemma sink_writes_inject: "sink_writes c a = sink_writes c b \<longleftrightarrow> a = b"
proof
  assume "sink_writes c a = sink_writes c b"
  then have "out (sink_writes c a) = out (sink_writes c b)" by simp
  then show "a = b" by (simp add: sink_writes_def)
qed simp

lemma out_sink_writes: "out (sink_writes c l) = out c @ [l]"
  by (simp add: sink_writes_def)

subsection \<open>The dispatcher: order of the rights check and the argument count\<close>







subsection \<open>Commands open to an unauthenticated connection\<close>

lemma rights_zero_names:
  "e \<in> set commands \<Longrightarrow>
     cmd_rights e = {} \<longleftrightarrow>
     cmd_name e \<in> {''confirm'', ''cookie'', ''nop'', ''rtp-address'', ''rtp-cancel'', ''user''}"
  unfolding commands_def entry_def RIGHT_defs by auto

lemma TABLE_FIND_Some:
  "TABLE_FIND table n = Some e \<Longrightarrow> e \<in> set table \<and> cmd_name e = n"
  by (auto simp: TABLE_FIND_def find_Some_iff)

lemma find_user: "TABLE_FIND commands ''user'' = Some (entry ''user'' 2 2 ''c_user'' {})"
  by (simp add: TABLE_FIND_def commands_def entry_def)

lemma find_version:
  "TABLE_FIND commands ''version'' = Some (entry ''version'' 0 0 ''c_version'' RIGHT_READ)"
  by (simp add: TABLE_FIND_def commands_def entry_def)

text \<open>
  C4, as stated, fails: the table entry of \<open>version\<close> requires \<open>RIGHT_READ\<close>, so
  \<open>version\<close> on a connection whose rights mask is zero is answered
  \<open>510 Prohibited\<close>; and \<open>rtp-cancel\<close> and \<open>rtp-address\<close>, which are not in the
  claimed set, require no right and reach their handlers.
\<close>

theorem unauthenticated_commands_counterexample:
  "command conn0 (Words [''version'']) = Completed (sink_writes conn0 ''510 Prohibited'')
   \<and> command conn0 (Words [''rtp-cancel'']) = Dispatch ''c_rtp_cancel'' conn0 []
   \<and> command conn0 (Words [''rtp-address'']) = Dispatch ''c_rtp_address'' conn0 []"
  by (simp add: TABLE_FIND_def commands_def entry_def RIGHT_defs conn0_def)

text \<open>
  C4 (amended): on a connection whose rights mask is zero, the commands of the table
  that pass the rights check are exactly \<open>confirm\<close>, \<open>cookie\<close>, \<open>nop\<close>,
  \<open>rtp-address\<close>, \<open>rtp-cancel\<close> and \<open>user\<close>; every other command of the table,
  \<open>version\<close> included, is answered \<open>510 Prohibited\<close>.
\<close>

theorem unauthenticated_commands:
  assumes "rights c = {}" and "TABLE_FIND commands v0 = Some e"
  shows "command c (Words (v0 # vec)) = Completed (sink_writes c ''510 Prohibited'')
         \<longleftrightarrow> v0 \<notin> {''confirm'', ''cookie'', ''nop'', ''rtp-address'', ''rtp-cancel'', ''user''}"
proof -
  from assms(2) have e: "e \<in> set commands" "cmd_name e = v0"
    by (simp_all add: TABLE_FIND_Some)
  have "command c (Words (v0 # vec)) = Completed (sink_writes c ''510 Prohibited'')
        \<longleftrightarrow> cmd_rights e \<noteq> {}"
    using assms by (auto simp: sink_writes_inject)
  with rights_zero_names [OF e(1)] e(2) show ?thesis by simp
qed

theorem unauthenticated_commands_witness:
  "rights conn0 = {}
   \<and> command conn0 (Words [''version'']) = Completed (sink_writes conn0 ''510 Prohibited'')
   \<and> command conn0 (Words [''user'', ''alice'', ''0123''])
       \<noteq> Completed (sink_writes conn0 ''510 Prohibited'')"
  using unauthenticated_commands [OF _ find_version, of conn0 "[]"]
        unauthenticated_commands [OF _ find_user, of conn0 "[''alice'', ''0123'']"]
  by (simp add: conn0_def)

subsection \<open>Authentication by \<open>user\<close>\<close>

text \<open>
  C2, as stated, fails: on a connection accepted by a privileged listener a wrong
  response authenticates, and on a connection that has already authenticated the
  right response is answered \<open>530\<close>.
\<close>

theorem c_user_counterexample:
  "authhash env0 (nonce conn0) ''secret'' (authorization_algorithm env0) \<noteq> Some ''wrong''
   \<and> c_user env0 (conn0\<lparr>privileged := True\<rparr>) ''alice'' ''wrong''
       = sink_writes (conn0\<lparr>privileged := True, who := Some ''alice'', rights := RIGHT_READ\<rparr>)
           ''230 OK''
   \<and> authhash env0 (nonce conn0) ''secret'' (authorization_algorithm env0) = Some ''sha1:secret:''
   \<and> c_user env0 (conn0\<lparr>who := Some ''bob''\<rparr>) ''alice'' ''sha1:secret:''
       = sink_writes (conn0\<lparr>who := Some ''bob''\<rparr>) ''530 already authenticated''"
  by (simp add: c_user_def env0_def conn0_def kvp_get_def sink_writes_def)

text \<open>
  C2 (amended): on a connection that has not authenticated yet, whose peer host can
  be determined, whose listener is not privileged, with \<open>wideopen\<close> off, and for a
  user record that is confirmed and whose rights parse, \<open>user name response\<close>
  authenticates (replies \<open>230 OK\<close>, records the user and the rights, with the local
  right added when the host is \<open>local\<close>) if and only if \<open>authhash\<close> of the
  connection's nonce and the user's password (the empty string when the record has
  none) under the configured algorithm yields exactly \<open>response\<close>; otherwise it
  replies \<open>530 authentication failed\<close> and leaves the connection as it was.  Since
  the statement holds for every nonce and every record, a changed nonce or password
  fails whenever its hash differs from the response.
\<close>

theorem c_user_authenticates_iff_hash:
  assumes "who c = None"
    and "connection_host env c = Some host"
    and "trackdb_getuserinfo env v0 = Some k"
    and "kvp_get k ''confirmation'' = None"
    and "parse_rights env (kvp_get k ''rights'') = Some r"
    and "\<not> wideopen env" and "\<not> privileged c"
  shows "c_user env c v0 v1 =
     (if authhash env (nonce c) (case kvp_get k ''password'' of None \<Rightarrow> [] | Some p \<Rightarrow> p)
           (authorization_algorithm env) = Some v1
      then sink_writes
             (c\<lparr>who := Some v0,
                rights := (if host = ''local'' then r \<union> RIGHT__LOCAL else r)\<rparr>) ''230 OK''
      else sink_writes c ''530 authentication failed'')"
  using assms by (simp add: c_user_def Let_def)

theorem c_user_authenticates_iff_hash_witness:
  "c_user env0 conn0 ''alice'' ''sha1:secret:''
     = sink_writes (conn0\<lparr>who := Some ''alice'', rights := RIGHT_READ\<rparr>) ''230 OK''
   \<and> c_user env0 conn0 ''alice'' ''sha1:secret:x'' = sink_writes conn0 ''530 authentication failed''
   \<and> c_user env0 (conn0\<lparr>nonce := [1]\<rparr>) ''alice'' ''sha1:secret:''
     = sink_writes (conn0\<lparr>nonce := [1]\<rparr>) ''530 authentication failed''"
  using c_user_authenticates_iff_hash [of conn0 env0 "''192.0.2.1''" "''alice''"
          "[(''password'', ''secret''), (''rights'', ''read'')]" RIGHT_READ "''sha1:secret:''"]
        c_user_authenticates_iff_hash [of conn0 env0 "''192.0.2.1''" "''alice''"
          "[(''password'', ''secret''), (''rights'', ''read'')]" RIGHT_READ "''sha1:secret:x''"]
        c_user_authenticates_iff_hash [of "conn0\<lparr>nonce := [1]\<rparr>" env0 "''192.0.2.1''" "''alice''"
          "[(''password'', ''secret''), (''rights'', ''read'')]" RIGHT_READ "''sha1:secret:''"]
  by (simp add: env0_def conn0_def kvp_get_def)

subsection \<open>Replies of \<open>playing-hls\<close>\<close>

lemma find_playing_hls:
  "TABLE_FIND commands ''playing-hls''
     = Some (entry ''playing-hls'' 0 0 ''c_playing_hls'' RIGHT_READ)"
  by (simp add: TABLE_FIND_def commands_def entry_def)

text \<open>
  C5: the code breaks the claim.  With HLS disabled and nothing playing,
  \<open>playing-hls\<close> from a connection holding the read right reaches \<open>c_playing_hls\<close>,
  which writes \<open>550 HLS not enabled\<close> and, not returning there, goes on to write
  \<open>259 nothing playing\<close>: an error line followed by a success line for one command.
\<close>

theorem c_playing_hls_two_replies:
  "command (conn0\<lparr>rights := RIGHT_READ\<rparr>) (Words [''playing-hls''])
     = Dispatch ''c_playing_hls'' (conn0\<lparr>rights := RIGHT_READ\<rparr>) []
   \<and> c_playing_hls hls0 (conn0\<lparr>rights := RIGHT_READ\<rparr>)
     = conn0\<lparr>rights := RIGHT_READ, out := [''550 HLS not enabled'', ''259 nothing playing'']\<rparr>"
  by (simp add: find_playing_hls entry_def RIGHT_READ_def c_playing_hls_def hls0_def conn0_def
        sink_writes_def)

theorem c_playing_hls_two_replies_lines:
  "map is_error_line (out (c_playing_hls hls0 (conn0\<lparr>rights := RIGHT_READ\<rparr>))) = [True, False]
   \<and> map is_success_line (out (c_playing_hls hls0 (conn0\<lparr>rights := RIGHT_READ\<rparr>)))
       = [False, True]"
  using c_playing_hls_two_replies by (simp add: is_error_line_def is_success_line_def)

subsection \<open>\<open>deluser\<close> and the live connections\<close>

text \<open>
  On a list of authenticated connections the loop of \<open>c_deluser\<close> zeroes the rights
  of the connections of the deleted user and changes nothing else.
\<close>

lemma zap_connections_authenticated:
  "\<forall>d \<in> set cs. who d \<noteq> None \<Longrightarrow>
   zap_connections u cs = Inr (map (\<lambda>d. if who d = Some u then d\<lparr>rights := {}\<rparr> else d) cs)"
  by (induction cs) auto

text \<open>
  C9: the code breaks the claim.  With a connection in the live list that has not
  authenticated (its \<open>who\<close> is null), a \<open>deluser\<close> that has passed its checks applies
  \<open>strcmp\<close> to the null pointer instead of leaving that connection alone.
\<close>

theorem c_deluser_null_who:
  "c_deluser True (\<lambda>u. 0) [conn0, admin_conn] 1 ''bob'' = Inl NullDereference"
  by (simp add: c_deluser_def admin_conn_def conn0_def RIGHT_defs)

subsection \<open>RTP destinations registered by connections\<close>

lemma destinations_append:
  "destinations (l @ l') = fold apply_rtp_call l' (destinations l)"
  by (simp add: destinations_def)

lemma destinations_Request: "destinations (l @ [Request d]) = d # destinations l"
  by (simp add: destinations_def)
lemma destinations_Cancel: "destinations (l @ [Cancel d]) = remove1 d (destinations l)"
  by (simp add: destinations_def)


lemma mset_registered: "mset (registered s) = (\<Sum>c\<leftarrow>connections s. contribution c)"
proof -
  have "mset (map rtp_destination (filter rtp_requested cs)) = (\<Sum>c\<leftarrow>cs. contribution c)" for cs
    by (induction cs) (auto simp: contribution_def)
  then show ?thesis by (simp add: registered_def)
qed

lemma sum_list_map_update:
  fixes f :: "'a \<Rightarrow> 'b multiset"
  shows "i < length xs \<Longrightarrow> (\<Sum>x\<leftarrow>xs[i := y]. f x) + f (xs ! i) = (\<Sum>x\<leftarrow>xs. f x) + f y"
proof (induction xs arbitrary: i)
  case Nil then show ?case by simp
next
  case (Cons a xs)
  show ?case
  proof (cases i)
    case 0 then show ?thesis by simp
  next
    case (Suc j)
    with Cons.prems have "j < length xs" by simp
    from Cons.IH [OF this] Suc show ?thesis by (simp add: ac_simps)
  qed
qed

lemma sum_list_map_remove:
  fixes f :: "'a \<Rightarrow> 'b multiset"
  shows "i < length xs \<Longrightarrow> (\<Sum>x\<leftarrow>take i xs @ drop (Suc i) xs. f x) + f (xs ! i) = (\<Sum>x\<leftarrow>xs. f x)"
proof -
  assume "i < length xs"
  then have "xs = take i xs @ xs ! i # drop (Suc i) xs" by (simp add: id_take_nth_drop)
  then have "(\<Sum>x\<leftarrow>xs. f x) = (\<Sum>x\<leftarrow>take i xs @ xs ! i # drop (Suc i) xs. f x)" by simp
  then show ?thesis by (simp add: ac_simps)
qed

lemma contribution_sink_writes: "contribution (sink_writes c l) = contribution c"
  by (simp add: contribution_def sink_writes_def)

lemma sum_reply:
  "(\<Sum>c\<leftarrow>reply cs i l. contribution c) = (\<Sum>c\<leftarrow>cs. contribution c)"
proof (cases "i < length cs")
  case True
  from sum_list_map_update [OF True, of contribution "sink_writes (cs ! i) l"]
  show ?thesis by (simp add: reply_def contribution_sink_writes)
next
  case False then show ?thesis by (simp add: reply_def list_update_beyond)
qed

lemma mset_swap:
  assumes "A + {#a#} = M + {#r#}" and "a \<in># M"
  shows "A = M - {#a#} + {#r#}"
proof -
  from assms(2) obtain N where M: "M = add_mset a N" by (auto dest: multi_member_split)
  with assms(1) have "A = N + {#r#}" by simp
  with M show ?thesis by simp
qed


lemma rtp_inv_alt: "rtp_inv s \<longleftrightarrow> mset (destinations (rtp_log s)) = (\<Sum>c\<leftarrow>connections s. contribution c)"
  by (simp add: rtp_inv_def mset_registered)

lemma contribution_in:
  assumes "i < length cs" "rtp_requested (cs ! i)"
  shows "rtp_destination (cs ! i) \<in># (\<Sum>c\<leftarrow>cs. contribution c)"
proof -
  from assms(1) have "cs = take i cs @ cs ! i # drop (Suc i) cs" by (simp add: id_take_nth_drop)
  then have "(\<Sum>c\<leftarrow>cs. contribution c)
      = (\<Sum>c\<leftarrow>take i cs. contribution c) + contribution (cs ! i) + (\<Sum>c\<leftarrow>drop (Suc i) cs. contribution c)"
    by (metis map_append sum_list.append list.simps(9) sum_list.Cons add.assoc)
  with assms(2) show ?thesis by (simp add: contribution_def)
qed

lemma rtp_inv_cancel:
  assumes "rtp_inv s" "i < length (connections s)"
  shows "rtp_inv (c_rtp_cancel s i)"
proof (cases "rtp_requested (connections s ! i)")
  case False
  with assms show ?thesis by (simp add: rtp_inv_alt c_rtp_cancel_def sum_reply)
next
  case True
  let ?c = "connections s ! i"
  from sum_list_map_update [OF assms(2), of contribution "?c\<lparr>rtp_requested := False\<rparr>"] True
  have "(\<Sum>c\<leftarrow>(connections s)[i := ?c\<lparr>rtp_requested := False\<rparr>]. contribution c) + {#rtp_destination ?c#}
        = (\<Sum>c\<leftarrow>connections s. contribution c)"
    by (simp add: contribution_def)
  then have "(\<Sum>c\<leftarrow>(connections s)[i := ?c\<lparr>rtp_requested := False\<rparr>]. contribution c)
        = (\<Sum>c\<leftarrow>connections s. contribution c) - {#rtp_destination ?c#}"
    by (metis add_diff_cancel_right')
  with assms(1) True show ?thesis
    by (simp add: rtp_inv_alt c_rtp_cancel_def Let_def sum_reply destinations_Cancel)
qed

lemma rtp_inv_request:
  assumes "rtp_inv s" "i < length (connections s)"
  shows "rtp_inv (c_rtp_request g s i v0 v1)"
proof (cases "g v0 v1")
  case None
  with assms show ?thesis by (simp add: rtp_inv_alt c_rtp_request_def sum_reply)
next
  case (Some res)
  let ?c = "connections s ! i"
  let ?c3 = "?c\<lparr>rtp_requested := False, rtp_destination := res, rtp_requested := True\<rparr>"
  from sum_list_map_update [OF assms(2), of contribution ?c3]
  have upd: "(\<Sum>c\<leftarrow>(connections s)[i := ?c3]. contribution c) + contribution ?c
        = (\<Sum>c\<leftarrow>connections s. contribution c) + {#res#}"
    by (simp add: contribution_def)
  show ?thesis
  proof (cases "rtp_requested ?c")
    case True
    from contribution_in [OF assms(2) True]
    have "rtp_destination ?c \<in># (\<Sum>c\<leftarrow>connections s. contribution c)" .
    moreover from upd True have "(\<Sum>c\<leftarrow>(connections s)[i := ?c3]. contribution c)
          + {#rtp_destination ?c#} = (\<Sum>c\<leftarrow>connections s. contribution c) + {#res#}"
      by (simp add: contribution_def)
    ultimately have "(\<Sum>c\<leftarrow>(connections s)[i := ?c3]. contribution c)
        = (\<Sum>c\<leftarrow>connections s. contribution c) - {#rtp_destination ?c#} + {#res#}"
      by (rule mset_swap [rotated])
    with assms(1) True Some show ?thesis
      by (simp add: rtp_inv_alt c_rtp_request_def Let_def sum_reply destinations_append)
  next
    case False
    with upd have "(\<Sum>c\<leftarrow>(connections s)[i := ?c3]. contribution c)
        = (\<Sum>c\<leftarrow>connections s. contribution c) + {#res#}"
      by (simp add: contribution_def)
    with assms(1) False Some show ?thesis
      by (simp add: rtp_inv_alt c_rtp_request_def Let_def sum_reply destinations_Request)
  qed
qed

lemma rtp_inv_remove:
  assumes "rtp_inv s" "i < length (connections s)"
  shows "rtp_inv (remove_connection s i)"
proof -
  let ?c = "connections s ! i"
  from sum_list_map_remove [OF assms(2), of contribution]
  have "(\<Sum>c\<leftarrow>take i (connections s) @ drop (Suc i) (connections s). contribution c)
        = (\<Sum>c\<leftarrow>connections s. contribution c) - contribution ?c"
    by (metis add_diff_cancel_right')
  with assms(1) show ?thesis
    by (simp add: rtp_inv_alt remove_connection_def Let_def destinations_Cancel contribution_def)
qed

lemma rtp_inv_listen: "rtp_inv s \<Longrightarrow> rtp_inv (listen_callback s t n p gr)"
  by (simp add: rtp_inv_alt listen_callback_def new_connection_def contribution_def)

lemma rtp_inv_step: "rtp_inv s \<Longrightarrow> rtp_inv (server_step g s op)"
  by (cases op) (simp_all add: rtp_inv_listen rtp_inv_request rtp_inv_cancel rtp_inv_remove)

lemma rtp_inv_fold: "rtp_inv s \<Longrightarrow> rtp_inv (fold (\<lambda>op s. server_step g s op) ops s)"
  by (induction ops arbitrary: s) (simp_all add: rtp_inv_step)

lemma nth_reply: "i < length cs \<Longrightarrow> reply cs i l ! i = sink_writes (cs ! i) l"
  by (simp add: reply_def)

lemma rtp_inv_init: "rtp_inv server_init"
  by (simp add: rtp_inv_def server_init_def destinations_def registered_def)


text \<open>
  C10: every connection has at most one registered unicast RTP destination at any
  time.  After any sequence of accepts, \<open>rtp-request\<close>s, \<open>rtp-cancel\<close>s and
  removals, the registered destinations are, as a multiset, exactly the
  \<open>rtp_destination\<close> fields of the live connections whose request flag is set (one
  field per connection, none for a removed connection), and each operation keeps
  this.  An \<open>rtp-request\<close> whose address resolves cancels the previous
  registration of the connection, if any, before it registers the new one;
  \<open>rtp-cancel\<close> replies \<open>550\<close> and calls nothing when there is no
  registration, and otherwise cancels it and replies \<open>250\<close>; \<open>remove_connection\<close>
  cancels a remaining registration and unlinks the connection.
\<close>

theorem rtp_destination_per_connection:
  "rtp_inv (run_server g ops)
   \<and> (rtp_inv s \<and> i < length (connections s) \<longrightarrow>
        rtp_inv (c_rtp_request g s i v0 v1) \<and> rtp_inv (c_rtp_cancel s i)
        \<and> rtp_inv (remove_connection s i))
   \<and> (i < length (connections s) \<and> g v0 v1 = Some res \<longrightarrow>
        rtp_log (c_rtp_request g s i v0 v1)
          = rtp_log s
            @ (if rtp_requested (connections s ! i)
               then [Cancel (rtp_destination (connections s ! i))] else [])
            @ [Request res]
        \<and> rtp_requested (connections (c_rtp_request g s i v0 v1) ! i)
        \<and> rtp_destination (connections (c_rtp_request g s i v0 v1) ! i) = res)
   \<and> (i < length (connections s) \<and> \<not> rtp_requested (connections s ! i) \<longrightarrow>
        c_rtp_cancel s i
          = s\<lparr>connections := reply (connections s) i ''550 No active RTP stream''\<rparr>)
   \<and> (i < length (connections s) \<and> rtp_requested (connections s ! i) \<longrightarrow>
        rtp_log (c_rtp_cancel s i) = rtp_log s @ [Cancel (rtp_destination (connections s ! i))]
        \<and> \<not> rtp_requested (connections (c_rtp_cancel s i) ! i)
        \<and> out (connections (c_rtp_cancel s i) ! i)
            = out (connections s ! i) @ [''250 Cancelled RTP stream''])
   \<and> (i < length (connections s) \<longrightarrow>
        rtp_log (remove_connection s i)
          = rtp_log s
            @ (if rtp_requested (connections s ! i)
               then [Cancel (rtp_destination (connections s ! i))] else [])
        \<and> connections (remove_connection s i)
            = take i (connections s) @ drop (Suc i) (connections s))"
proof (intro conjI impI)
  show "rtp_inv (run_server g ops)"
    unfolding run_server_def by (rule rtp_inv_fold [OF rtp_inv_init])
next
  assume "rtp_inv s \<and> i < length (connections s)"
  then show "rtp_inv (c_rtp_request g s i v0 v1)" by (simp add: rtp_inv_request)
next
  assume "rtp_inv s \<and> i < length (connections s)"
  then show "rtp_inv (c_rtp_cancel s i)" by (simp add: rtp_inv_cancel)
next
  assume "rtp_inv s \<and> i < length (connections s)"
  then show "rtp_inv (remove_connection s i)" by (simp add: rtp_inv_remove)
next
  assume a: "i < length (connections s) \<and> g v0 v1 = Some res"
  then show "rtp_log (c_rtp_request g s i v0 v1)
          = rtp_log s
            @ (if rtp_requested (connections s ! i)
               then [Cancel (rtp_destination (connections s ! i))] else [])
            @ [Request res]"
    by (simp add: c_rtp_request_def Let_def)
  from a show "rtp_requested (connections (c_rtp_request g s i v0 v1) ! i)"
    by (simp add: c_rtp_request_def Let_def nth_reply sink_writes_def)
  from a show "rtp_destination (connections (c_rtp_request g s i v0 v1) ! i) = res"
    by (simp add: c_rtp_request_def Let_def nth_reply sink_writes_def)
next
  assume "i < length (connections s) \<and> \<not> rtp_requested (connections s ! i)"
  then show "c_rtp_cancel s i
          = s\<lparr>connections := reply (connections s) i ''550 No active RTP stream''\<rparr>"
    by (simp add: c_rtp_cancel_def)
next
  assume a: "i < length (connections s) \<and> rtp_requested (connections s ! i)"
  then show "rtp_log (c_rtp_cancel s i)
      = rtp_log s @ [Cancel (rtp_destination (connections s ! i))]"
    by (simp add: c_rtp_cancel_def Let_def)
  from a show "\<not> rtp_requested (connections (c_rtp_cancel s i) ! i)"
    by (simp add: c_rtp_cancel_def Let_def nth_reply sink_writes_def)
  from a show "out (connections (c_rtp_cancel s i) ! i)
            = out (connections s ! i) @ [''250 Cancelled RTP stream'']"
    by (simp add: c_rtp_cancel_def Let_def nth_reply sink_writes_def)
next
  assume a: "i < length (connections s)"
  then show "rtp_log (remove_connection s i)
          = rtp_log s
            @ (if rtp_requested (connections s ! i)
               then [Cancel (rtp_destination (connections s ! i))] else [])"
    by (simp add: remove_connection_def Let_def)
  show "connections (remove_connection s i)
            = take i (connections s) @ drop (Suc i) (connections s)"
    by (simp add: remove_connection_def Let_def)
qed

lemma run_ops0:
  "run_server resolve0 ops0 =
     \<lparr>connections = [(new_connection 7 [] False ''231 2 sha1 00'')
         \<lparr>rtp_requested := True, rtp_destination := (''10.0.0.5'', ''5004''),
          out := [''231 2 sha1 00'', ''250 Initiated RTP stream'']\<rparr>],
      rtp_log = [Request (''10.0.0.5'', ''5004'')]\<rparr>"
  by (simp add: run_server_def ops0_def server_init_def listen_callback_def c_rtp_request_def
        resolve0_def new_connection_def reply_def sink_writes_def)

theorem rtp_destination_per_connection_witness:
  "rtp_inv (run_server resolve0 (ops0 @ [RemoveConnection 0]))
   \<and> rtp_log (c_rtp_request resolve0 (run_server resolve0 ops0) 0 ''10.0.0.6'' ''5006'')
       = [Request (''10.0.0.5'', ''5004''), Cancel (''10.0.0.5'', ''5004''),
          Request (''10.0.0.6'', ''5006'')]
   \<and> rtp_log (c_rtp_cancel (run_server resolve0 ops0) 0)
       = [Request (''10.0.0.5'', ''5004''), Cancel (''10.0.0.5'', ''5004'')]
   \<and> rtp_log (remove_connection (run_server resolve0 ops0) 0)
       = [Request (''10.0.0.5'', ''5004''), Cancel (''10.0.0.5'', ''5004'')]
   \<and> connections (remove_connection (run_server resolve0 ops0) 0) = []
   \<and> c_rtp_cancel (run_server resolve0 [Accept 7 [] False ''231 2 sha1 00'']) 0
       = \<lparr>connections = [(new_connection 7 [] False ''231 2 sha1 00'')
            \<lparr>out := [''231 2 sha1 00'', ''550 No active RTP stream'']\<rparr>], rtp_log = []\<rparr>"
  using rtp_destination_per_connection
          [of resolve0 "ops0 @ [RemoveConnection 0]" "run_server resolve0 ops0" 0
              "''10.0.0.6''" "''5006''" "(''10.0.0.6'', ''5006'')"]
        rtp_destination_per_connection
          [of resolve0 "[]" "run_server resolve0 [Accept 7 [] False ''231 2 sha1 00'']" 0
              "''10.0.0.6''" "''5006''" "(''10.0.0.6'', ''5006'')"]
  by (simp add: run_ops0 resolve0_def)
     (simp add: run_server_def server_init_def listen_callback_def new_connection_def
        reply_def sink_writes_def)

subsection \<open>\<open>rtp_play\<close> while paused\<close>

text \<open>
  C3, as stated, fails: a call of \<open>rtp_play\<close> with \<open>UAUDIO_PAUSED\<close> set returns
  before \<open>writev\<close>; it consumes a sequence number and reports the samples to the
  scheduler, but no packet reaches the socket.
\<close>

theorem rtp_play_paused_counterexample:
  "rtp_play rtp0 [1, 2] {UAUDIO_PLAYING, UAUDIO_PAUSED} 0 [Done 16]
     = Inr (rtp0\<lparr>rtp_sequence := 1, schedule_sent := [2]\<rparr>, 2)
   \<and> sent_packets (rtp0\<lparr>rtp_sequence := 1, schedule_sent := [2]\<rparr>) = []"
  by (simp add: rtp_play_def rtp0_def)

text \<open>
  C3 (amended): while paused (\<open>UAUDIO_PAUSED\<close> set in the flags), every call of
  \<open>rtp_play\<close> writes no packet to the network socket: it takes the next sequence
  number, reports all \<open>nsamples\<close> samples to the scheduler as sent and returns
  \<open>nsamples\<close>, leaving everything else as it was.
\<close>

theorem rtp_play_paused_sends_nothing:
  assumes "UAUDIO_PAUSED \<in> flags"
  shows "rtp_play s buffer flags sync ws
           = Inr (s\<lparr>rtp_sequence := rtp_sequence s + 1,
                    schedule_sent := schedule_sent s @ [length buffer]\<rparr>, length buffer)"
  using assms by (simp add: rtp_play_def Let_def)

theorem rtp_play_paused_sends_nothing_witness:
  "sent_packets (fst (projr (rtp_play rtp0 [1, 2] {UAUDIO_PAUSED} 5 [Done 16]))) = []
   \<and> rtp_sequence (fst (projr (rtp_play rtp0 [1, 2] {UAUDIO_PAUSED} 5 [Done 16]))) = 1
   \<and> snd (projr (rtp_play rtp0 [1, 2] {UAUDIO_PAUSED} 5 [Done 16])) = 2"
  using rtp_play_paused_sends_nothing [of "{UAUDIO_PAUSED}" rtp0 "[1, 2]" 5 "[Done 16]"]
  by (simp add: rtp0_def)

text \<open>When not paused, the same call does send the packet (after an interrupted \<open>writev\<close>).\<close>

lemma rtp_play_playing:
  "rtp_play rtp0 [1, 2] {UAUDIO_PLAYING} 5 [Failed EINTR, Done 16]
     = Inr (rtp0\<lparr>rtp_sequence := 1, schedule_sent := [2],
          sent_packets := [(\<lparr>vpxcc = 128, mpt = 10, seq = 0, timestamp = 5, ssrc = 0\<rparr>, [1, 2])]\<rparr>, 2)"
  by (simp add: rtp_play_def rtp0_def tdiv_def)

subsection \<open>The sample counter \<open>rtp_time\<close> of the network backend\<close>

lemma idle_fixup_le:
  "idle_fixup s a = Inr s1 \<Longrightarrow>
     rtp_time s \<le> rtp_time s1 \<and> s1 = s\<lparr>rtp_time := rtp_time s1\<rparr>"
  by (auto simp: idle_fixup_def split: if_splits)

lemma word_add_no_wrap:
  fixes x w c :: "64 word"
  assumes "unat x + unat w * unat c < 2 ^ 64"
  shows "x \<le> x + w * c"
proof -
  from assms have "unat w * unat c < 2 ^ LENGTH(64)" by simp
  then have "unat (w * c) = unat w * unat c" by (simp only: unat_mult_lem)
  with assms have "unat x + unat (w * c) < 2 ^ LENGTH(64)" by simp
  then show ?thesis by (simp only: no_olen_add_nat)
qed

lemma network_play_step:
  assumes "network_play s a = Inr (s', n)" and "no_wrap s a" and "stamped s"
  shows "rtp_time s \<le> rtp_time s' \<and> stamped s'"
proof -
  from assms(1) obtain s1 where s1: "idle_fixup s a = Inr s1"
    by (auto simp: network_play_def split: sum.splits)
  from idle_fixup_le [OF s1] have le1: "rtp_time s \<le> rtp_time s1"
    and eq1: "s1 = s\<lparr>rtp_time := rtp_time s1\<rparr>" by simp_all
  from eq1 have same: "bfd_packets s1 = bfd_packets s" "header_times s1 = header_times s"
    by (metis network.select_convs(6) network.surjective network.update_convs(1),
        metis network.select_convs(7) network.surjective network.update_convs(1))
  from assms(3) have st: "map (\<lambda>p. timestamp (fst p)) (bfd_packets s) = map ucast (header_times s)"
    "sorted (header_times s)" "list_all (\<lambda>t. t \<le> rtp_time s) (header_times s)"
    by (simp_all add: stamped_def)
  from st(3) le1 have all1: "list_all (\<lambda>t. t \<le> rtp_time s1) (header_times s)"
    by (auto simp: list_all_iff)
  obtain r where r: "retry_eintr (writev a) = Some r"
    using assms(1) s1 by (auto simp: network_play_def Let_def split: sum.splits option.splits)
  show ?thesis
  proof (cases r)
    case (Failed e)
    with assms(1) s1 r have "rtp_time s' = rtp_time s1" "bfd_packets s' = bfd_packets s1"
      "header_times s' = header_times s1"
      by (auto simp: network_play_def Let_def split: sum.splits if_splits)
    with le1 st all1 same show ?thesis by (simp add: stamped_def)
  next
    case (Done k)
    define wf :: "64 word" where "wf = word_of_int (int k - int sizeof_rtp_header) div device_bpf a"
    from assms(1) s1 r Done have
      t': "rtp_time s' = rtp_time s1 + wf * word_of_int (channels a)"
      and p': "bfd_packets s' = bfd_packets s1 @ [(\<lparr>vpxcc = push_bit 6 2,
                        mpt = (if idled s1 then 0x80 else 0x00) OR 10,
                        seq = rtp_seq s1,
                        timestamp = ucast (rtp_time s1),
                        ssrc = network_rtp_id s1\<rparr>, projr (payload_bytes a))]"
      and h': "header_times s' = header_times s1 @ [rtp_time s1]"
      by (auto simp: network_play_def Let_def wf_def split: sum.splits if_splits)
    from assms(2) s1 r Done have "unat (rtp_time s1) + unat wf * unat (word_of_int (channels a) :: 64 word) < 2 ^ 64"
      by (simp add: no_wrap_def wf_def)
    then have le2: "rtp_time s1 \<le> rtp_time s'" unfolding t' by (rule word_add_no_wrap)
    from le1 le2 have "rtp_time s \<le> rtp_time s'" by simp
    moreover have "stamped s'"
      using st all1 le2 same p' h'
      by (auto simp: stamped_def sorted_append list_all_iff)
    ultimately show ?thesis by simp
  qed
qed

lemma sender_run_monotone:
  "sender_run s es = Inr s' \<Longrightarrow> steady s es \<Longrightarrow> stamped s
     \<Longrightarrow> rtp_time s \<le> rtp_time s' \<and> stamped s'"
proof (induction es arbitrary: s)
  case Nil then show ?case by simp
next
  case (Cons e es)
  show ?case
  proof (cases e)
    case Idle
    have "stamped (s\<lparr>idled := True\<rparr>)" using Cons.prems(3) by (simp add: stamped_def)
    with Cons.IH [of "s\<lparr>idled := True\<rparr>"] Cons.prems Idle show ?thesis by simp
  next
    case (Play a)
    with Cons.prems(1) obtain s1 n where s1: "network_play s a = Inr (s1, n)"
      and run: "sender_run s1 es = Inr s'"
      by (auto split: sum.splits)
    from Cons.prems(2) Play s1 have nw: "no_wrap s a" and st: "steady s1 es" by simp_all
    from network_play_step [OF s1 nw Cons.prems(3)] have "rtp_time s \<le> rtp_time s1" "stamped s1"
      by simp_all
    with Cons.IH [OF run st] show ?thesis by auto
  qed
qed


text \<open>
  C6, as stated, fails.  The header carries \<open>(uint32_t)rtp_time\<close>: two packets sent
  back to back from \<open>rtp_time = 2^32 - 2\<close> carry the timestamps \<open>4294967294\<close> and
  then \<open>0\<close>, so the second packet's timestamp is less than its predecessor's
  (at 44100 Hz stereo this happens after about half a day of play).  And the 64-bit
  counter itself wraps: from \<open>2^64 - 2\<close> one stereo frame leaves it at \<open>0\<close>.
\<close>

theorem rtp_timestamp_counterexample:
  "sender_run net0 [Play call0, Play call0]
     = Inr (net0\<lparr>rtp_time := 4294967298, rtp_seq := 2,
             bfd_packets :=
               [(\<lparr>vpxcc = 128, mpt = 10, seq = 0, timestamp = 4294967294, ssrc = 0\<rparr>, 4),
                (\<lparr>vpxcc = 128, mpt = 10, seq = 1, timestamp = 0, ssrc = 0\<rparr>, 4)],
             header_times := [4294967294, 4294967296]\<rparr>)
   \<and> (0 :: 32 word) < 4294967294
   \<and> sender_run (net0\<lparr>rtp_time := 18446744073709551614\<rparr>) [Play call0]
     = Inr (net0\<lparr>rtp_time := 0, rtp_seq := 1,
             bfd_packets :=
               [(\<lparr>vpxcc = 128, mpt = 10, seq = 0, timestamp = 4294967294, ssrc = 0\<rparr>, 4)],
             header_times := [18446744073709551614]\<rparr>)"
  by (simp add: net0_def call0_def network_play_def idle_fixup_def payload_bytes_def
        NETWORK_BYTES_def sizeof_rtp_header_def tdiv_def)

text \<open>
  C6 (amended): across any sequence of play calls and idle periods that returns and
  in which the 64-bit counter does not wrap (each call's
  \<open>written_frames * channels\<close> added to \<open>rtp_time\<close> stays below \<open>2^64\<close>),
  \<open>rtp_time\<close> is monotonically non-decreasing, and the values of \<open>rtp_time\<close> that
  the successive packets' timestamps are taken from are non-decreasing and never
  exceed the current \<open>rtp_time\<close>; the header carries the low 32 bits of that
  value.  On a play after an idle period whose elapsed-time assertion holds,
  \<open>rtp_time\<close> is advanced to \<open>target_rtp_time\<close> (the elapsed sample count rounded
  down to an even number) when \<open>target_rtp_time > rtp_time\<close> and is kept unchanged
  when \<open>target_rtp_time \<le> rtp_time\<close>.
\<close>

theorem rtp_time_monotone:
  "(sender_run s es = Inr s' \<and> steady s es \<and> stamped s
      \<longrightarrow> rtp_time s \<le> rtp_time s' \<and> stamped s')
   \<and> (idled s \<and> delta a \<le> UINT64_MAX div 88200
      \<longrightarrow> idle_fixup s a
          = Inr (if target_rtp_time a > rtp_time s then s\<lparr>rtp_time := target_rtp_time a\<rparr>
                 else s))"
proof (intro conjI impI)
  assume "sender_run s es = Inr s' \<and> steady s es \<and> stamped s"
  then show "rtp_time s \<le> rtp_time s'" "stamped s'"
    using sender_run_monotone [of s es s'] by simp_all
next
  assume "idled s \<and> delta a \<le> UINT64_MAX div 88200"
  then show "idle_fixup s a
          = Inr (if target_rtp_time a > rtp_time s then s\<lparr>rtp_time := target_rtp_time a\<rparr>
                 else s)"
    by (simp add: idle_fixup_def)
qed

lemma target_call1: "target_rtp_time call1 = 88200000000"
  by (simp add: target_rtp_time_def call1_def call0_def)

lemma run_idle_play:
  "sender_run net0 [Idle, Play call1, Play call0]
     = Inr (net0\<lparr>rtp_time := 88200000004, rtp_seq := 2,
             bfd_packets :=
               [(\<lparr>vpxcc = 128, mpt = 138, seq = 0, timestamp = 2300654080, ssrc = 0\<rparr>, 4),
                (\<lparr>vpxcc = 128, mpt = 10, seq = 1, timestamp = 2300654082, ssrc = 0\<rparr>, 4)],
             header_times := [88200000000, 88200000002]\<rparr>)"
  by (simp add: net0_def call1_def call0_def network_play_def idle_fixup_def payload_bytes_def
        NETWORK_BYTES_def sizeof_rtp_header_def tdiv_def target_rtp_time_def UINT64_MAX_def)

lemma steady_idle_play: "steady net0 [Idle, Play call1, Play call0]"
  by (simp add: net0_def call1_def call0_def network_play_def idle_fixup_def payload_bytes_def
        NETWORK_BYTES_def sizeof_rtp_header_def tdiv_def target_rtp_time_def UINT64_MAX_def
        no_wrap_def)

theorem rtp_time_monotone_witness:
  "sender_run net0 [Idle, Play call1, Play call0]
     = Inr (net0\<lparr>rtp_time := 88200000004, rtp_seq := 2,
             bfd_packets :=
               [(\<lparr>vpxcc = 128, mpt = 138, seq = 0, timestamp = 2300654080, ssrc = 0\<rparr>, 4),
                (\<lparr>vpxcc = 128, mpt = 10, seq = 1, timestamp = 2300654082, ssrc = 0\<rparr>, 4)],
             header_times := [88200000000, 88200000002]\<rparr>)
   \<and> steady net0 [Idle, Play call1, Play call0] \<and> stamped net0
   \<and> rtp_time net0 \<le> 88200000004
   \<and> idle_fixup (net0\<lparr>idled := True\<rparr>) call1
       = Inr (net0\<lparr>idled := True, rtp_time := 88200000000\<rparr>)
   \<and> idle_fixup (net0\<lparr>idled := True\<rparr>) call0 = Inr (net0\<lparr>idled := True\<rparr>)"
  using rtp_time_monotone [of net0 "[Idle, Play call1, Play call0]"
          "net0\<lparr>rtp_time := 88200000004, rtp_seq := 2,
             bfd_packets :=
               [(\<lparr>vpxcc = 128, mpt = 138, seq = 0, timestamp = 2300654080, ssrc = 0\<rparr>, 4),
                (\<lparr>vpxcc = 128, mpt = 10, seq = 1, timestamp = 2300654082, ssrc = 0\<rparr>, 4)],
             header_times := [88200000000, 88200000002]\<rparr>" call1]
        rtp_time_monotone [of "net0\<lparr>idled := True\<rparr>" "[]" "net0\<lparr>idled := True\<rparr>" call1]
        rtp_time_monotone [of "net0\<lparr>idled := True\<rparr>" "[]" "net0\<lparr>idled := True\<rparr>" call0]
        run_idle_play steady_idle_play target_call1
  by (simp add: stamped_def)
     (simp add: net0_def call1_def call0_def UINT64_MAX_def target_rtp_time_def)

subsection \<open>The tie of a reader and a writer on one descriptor\<close>

lemma closes_emit:
  "closes (emit ctx e s) = closes s @ (case e of Sys_close fd \<Rightarrow> [(ctx, e)] | _ \<Rightarrow> [])"
  by (cases e) (simp_all add: closes_def emit_def)

lemma half_shuts_emit:
  "half_shuts (emit ctx e s)
     = half_shuts s @ (case e of Sys_shutdown_wr fd \<Rightarrow> [(ctx, e)]
                               | Sys_shutdown_rd fd \<Rightarrow> [(ctx, e)] | _ \<Rightarrow> [])"
  by (cases e) (simp_all add: half_shuts_def emit_def)

lemma emit_fields:
  "w_fd (emit ctx e s) = w_fd s" "r_fd (emit ctx e s) = r_fd s"
  "fds (emit ctx e s) = fds s" "w_reader (emit ctx e s) = w_reader s"
  "r_writer (emit ctx e s) = r_writer s" "enabled (emit ctx e s) = enabled s"
  "timeouts (emit ctx e s) = timeouts s" "timeout_store (emit ctx e s) = timeout_store s"
  "aborted (emit ctx e s) = aborted s" "w_error (emit ctx e s) = w_error s"
  "r_error (emit ctx e s) = r_error s" "w_abandoned (emit ctx e s) = w_abandoned s"
  "w_b (emit ctx e s) = w_b s" "w_eof (emit ctx e s) = w_eof s"
  "w_timeout (emit ctx e s) = w_timeout s" "w_timebound (emit ctx e s) = w_timebound s"
  "w_spacebound (emit ctx e s) = w_spacebound s"
  by (simp_all add: emit_def)

lemma closes_upd:
  "closes (s\<lparr>w_fd := a\<rparr>) = closes s" "closes (s\<lparr>r_fd := a\<rparr>) = closes s"
  "closes (s\<lparr>w_reader := b\<rparr>) = closes s" "closes (s\<lparr>r_writer := b\<rparr>) = closes s"
  "closes (s\<lparr>w_timeout := c\<rparr>) = closes s" "closes (s\<lparr>r_eof := b\<rparr>) = closes s"
  "closes (s\<lparr>w_error := d\<rparr>) = closes s" "closes (s\<lparr>r_error := d\<rparr>) = closes s"
  "closes (s\<lparr>w_abandoned := b\<rparr>) = closes s" "closes (s\<lparr>w_b := f\<rparr>) = closes s"
  "closes (s\<lparr>w_eof := b\<rparr>) = closes s" "closes (s\<lparr>r_b := f\<rparr>) = closes s"
  "closes (s\<lparr>timeouts := g\<rparr>) = closes s"
  by (simp_all add: closes_def)

lemma half_shuts_upd:
  "half_shuts (s\<lparr>w_fd := a\<rparr>) = half_shuts s" "half_shuts (s\<lparr>r_fd := a\<rparr>) = half_shuts s"
  "half_shuts (s\<lparr>w_reader := b\<rparr>) = half_shuts s" "half_shuts (s\<lparr>r_writer := b\<rparr>) = half_shuts s"
  "half_shuts (s\<lparr>w_timeout := c\<rparr>) = half_shuts s" "half_shuts (s\<lparr>r_eof := b\<rparr>) = half_shuts s"
  "half_shuts (s\<lparr>w_error := d\<rparr>) = half_shuts s" "half_shuts (s\<lparr>r_error := d\<rparr>) = half_shuts s"
  "half_shuts (s\<lparr>w_abandoned := b\<rparr>) = half_shuts s" "half_shuts (s\<lparr>w_b := f\<rparr>) = half_shuts s"
  "half_shuts (s\<lparr>w_eof := b\<rparr>) = half_shuts s" "half_shuts (s\<lparr>r_b := f\<rparr>) = half_shuts s"
  "half_shuts (s\<lparr>timeouts := g\<rparr>) = half_shuts s"
  by (simp_all add: half_shuts_def)

text \<open>The event-source primitives leave the pair's own fields and the trace alone.\<close>

lemma ev_timeout_cancel_fields:
  "w_fd (ev_timeout_cancel s h) = w_fd s" "r_fd (ev_timeout_cancel s h) = r_fd s"
  "fds (ev_timeout_cancel s h) = fds s" "w_reader (ev_timeout_cancel s h) = w_reader s"
  "r_writer (ev_timeout_cancel s h) = r_writer s" "closes (ev_timeout_cancel s h) = closes s"
  "half_shuts (ev_timeout_cancel s h) = half_shuts s"
  "enabled (ev_timeout_cancel s h) = enabled s"
  "w_error (ev_timeout_cancel s h) = w_error s"
  "r_error (ev_timeout_cancel s h) = r_error s"
  "trace (ev_timeout_cancel s h) = trace s"
  by (simp_all add: ev_timeout_cancel_def closes_def half_shuts_def split: option.splits)

lemma ev_timeout_fields:
  "w_fd (fst (ev_timeout s w cb)) = w_fd s" "r_fd (fst (ev_timeout s w cb)) = r_fd s"
  "fds (fst (ev_timeout s w cb)) = fds s" "w_reader (fst (ev_timeout s w cb)) = w_reader s"
  "r_writer (fst (ev_timeout s w cb)) = r_writer s" "closes (fst (ev_timeout s w cb)) = closes s"
  "half_shuts (fst (ev_timeout s w cb)) = half_shuts s"
  "trace (fst (ev_timeout s w cb)) = trace s"
  by (simp_all add: ev_timeout_def closes_def half_shuts_def Let_def)

lemma ev_fd_enable_fields:
  "w_fd (ev_fd_enable s m fd) = w_fd s" "r_fd (ev_fd_enable s m fd) = r_fd s"
  "fds (ev_fd_enable s m fd) = fds s" "w_reader (ev_fd_enable s m fd) = w_reader s"
  "r_writer (ev_fd_enable s m fd) = r_writer s" "closes (ev_fd_enable s m fd) = closes s"
  "half_shuts (ev_fd_enable s m fd) = half_shuts s"
  "trace (ev_fd_enable s m fd) = trace s"
  by (simp_all add: ev_fd_enable_def closes_def half_shuts_def)

lemma ev_fd_disable_fields:
  "w_fd (ev_fd_disable s m fd) = w_fd s" "r_fd (ev_fd_disable s m fd) = r_fd s"
  "fds (ev_fd_disable s m fd) = fds s" "w_reader (ev_fd_disable s m fd) = w_reader s"
  "r_writer (ev_fd_disable s m fd) = r_writer s" "closes (ev_fd_disable s m fd) = closes s"
  "half_shuts (ev_fd_disable s m fd) = half_shuts s"
  "trace (ev_fd_disable s m fd) = trace s"
  by (simp_all add: ev_fd_disable_def closes_def half_shuts_def)

lemmas pair_fields =
  closes_emit half_shuts_emit emit_fields closes_upd half_shuts_upd
  ev_timeout_cancel_fields ev_timeout_fields ev_fd_enable_fields ev_fd_disable_fields

lemma tie_inv_cong:
  assumes "tie_inv fd s"
    and "w_fd s' = w_fd s" "r_fd s' = r_fd s" "fds s' = fds s" "w_reader s' = w_reader s"
    and "r_writer s' = r_writer s" "closes s' = closes s" "half_shuts s' = half_shuts s"
  shows "tie_inv fd s'"
  using assms by (simp add: pair_fields tie_inv_def)

lemma tie_inv_writer_shutdown: "tie_inv fd s \<Longrightarrow> tie_inv fd (writer_shutdown ctx s)"
  by (auto simp: pair_fields tie_inv_def writer_shutdown_def Let_def ev_fd_cancel_def closes_def half_shuts_def
           emit_def ev_timeout_cancel_def split: if_splits option.splits)

lemma tie_inv_reader_shutdown: "tie_inv fd s \<Longrightarrow> tie_inv fd (reader_shutdown ctx s)"
  by (auto simp: pair_fields tie_inv_def reader_shutdown_def Let_def ev_fd_cancel_def closes_def half_shuts_def
           emit_def split: if_splits option.splits)


lemma tie_inv_writer_timebound_exceeded:
  "tie_inv fd s \<Longrightarrow> tie_inv fd (writer_timebound_exceeded ctx s)"
proof -
  assume a: "tie_inv fd s"
  have "tie_inv fd (s\<lparr>w_abandoned := True, w_error := Some ETIMEDOUT\<rparr>)"
    by (rule tie_inv_cong [OF a]) (simp_all add: pair_fields)
  with a show ?thesis
    by (simp add: pair_fields writer_timebound_exceeded_def Let_def tie_inv_writer_shutdown)
qed

lemma tie_inv_writer_set_timebound:
  "tie_inv fd s \<Longrightarrow> tie_inv fd (writer_set_timebound now s)"
proof -
  assume a: "tie_inv fd s"
  show ?thesis
  proof (cases "w_timebound s \<noteq> 0 \<and> w_timeout s = None")
    case True
    obtain s1 h where e: "ev_timeout s (Some (now + w_timebound s * 1000000))
                           Writer_timebound_exceeded = (s1, h)" by (cases "ev_timeout s (Some (now + w_timebound s * 1000000)) Writer_timebound_exceeded")
    then have s1: "s1 = fst (ev_timeout s (Some (now + w_timebound s * 1000000))
                           Writer_timebound_exceeded)" by simp
    have "tie_inv fd (s1\<lparr>w_timeout := Some h\<rparr>)"
      by (rule tie_inv_cong [OF a]) (simp_all add: pair_fields s1)
    with True e show ?thesis by (simp add: pair_fields writer_set_timebound_def)
  next
    case False
    with a show ?thesis by (auto simp: pair_fields writer_set_timebound_def)
  qed
qed

lemma tie_inv_writer_callback:
  assumes a: "tie_inv fd s"
  shows "tie_inv fd (writer_callback ctx now res s)"
proof (cases res)
  case (Failed e)
  have "tie_inv fd (s\<lparr>w_error := Some e\<rparr>)" by (rule tie_inv_cong [OF a]) (simp_all add: pair_fields)
  with a Failed show ?thesis by (simp add: pair_fields writer_callback_def tie_inv_writer_shutdown)
next
  case (Done n)
  define s3 where "s3 = (ev_timeout_cancel (s\<lparr>w_b := drop n (w_b s)\<rparr>) (w_timeout s))\<lparr>w_timeout := None\<rparr>"
  have i3: "tie_inv fd s3" unfolding s3_def by (rule tie_inv_cong [OF a]) (simp_all add: pair_fields)
  have "tie_inv fd (s3\<lparr>w_error := None\<rparr>)" by (rule tie_inv_cong [OF i3]) (simp_all add: pair_fields)
  then have 1: "tie_inv fd (writer_shutdown ctx (s3\<lparr>w_error := None\<rparr>))"
    by (rule tie_inv_writer_shutdown)
  have 2: "tie_inv fd (ev_fd_disable s3 ev_write (w_fd s))"
    by (rule tie_inv_cong [OF i3]) (simp_all add: pair_fields)
  have 3: "tie_inv fd (writer_set_timebound now s3)"
    by (rule tie_inv_writer_set_timebound [OF i3])
  from Done 1 2 3 show ?thesis
    by (simp add: pair_fields writer_callback_def Let_def s3_def)
qed

lemma tie_inv_ev_writer_write:
  assumes a: "tie_inv fd s"
  shows "tie_inv fd (ev_writer_write now s d)"
proof -
  have 1: "tie_inv fd (fst (ev_timeout ((ev_fd_disable (s\<lparr>w_abandoned := True\<rparr>) ev_write (w_fd s))\<lparr>w_error := Some EPIPE\<rparr>) None Writer_shutdown))"
    by (rule tie_inv_cong [OF a]) (simp_all add: pair_fields)
  have "tie_inv fd ((if w_b s = [] then ev_fd_enable s ev_write (w_fd s) else s)\<lparr>w_b := w_b (if w_b s = [] then ev_fd_enable s ev_write (w_fd s) else s) @ d\<rparr>)"
    by (rule tie_inv_cong [OF a]) (simp_all add: pair_fields)
  then have 2: "tie_inv fd (writer_set_timebound now ((if w_b s = [] then ev_fd_enable s ev_write (w_fd s) else s)\<lparr>w_b := w_b (if w_b s = [] then ev_fd_enable s ev_write (w_fd s) else s) @ d\<rparr>))"
    by (rule tie_inv_writer_set_timebound)
  from a 1 2 show ?thesis
    by (simp add: pair_fields ev_writer_write_def Let_def)
qed

lemma tie_inv_ev_writer_close: "tie_inv fd s \<Longrightarrow> tie_inv fd (ev_writer_close s)"
proof -
  assume a: "tie_inv fd s"
  have 1: "tie_inv fd (fst (ev_timeout (s\<lparr>w_eof := True, w_error := None\<rparr>) None Writer_shutdown))"
    by (rule tie_inv_cong [OF a]) (simp_all add: pair_fields)
  have 2: "tie_inv fd (s\<lparr>w_eof := True\<rparr>)" by (rule tie_inv_cong [OF a]) (simp_all add: pair_fields)
  from a 1 2 show ?thesis by (simp add: pair_fields ev_writer_close_def Let_def)
qed

lemma tie_inv_ev_reader_cancel: "tie_inv fd s \<Longrightarrow> tie_inv fd (ev_reader_cancel s)"
proof -
  assume a: "tie_inv fd s"
  have 1: "tie_inv fd (fst (ev_timeout (ev_fd_disable s ev_read (r_fd s)) None Reader_shutdown))"
    by (rule tie_inv_cong [OF a]) (simp_all add: pair_fields)
  from a 1 show ?thesis by (simp add: pair_fields ev_reader_cancel_def)
qed

lemma tie_inv_reader_callback:
  assumes a: "tie_inv fd s"
  shows "tie_inv fd (reader_callback ctx res s)"
proof (cases res)
  case (Read_failed e)
  have "tie_inv fd (s\<lparr>r_error := Some e\<rparr>)" by (rule tie_inv_cong [OF a]) (simp_all add: pair_fields)
  with a Read_failed show ?thesis by (simp add: pair_fields reader_callback_def tie_inv_reader_shutdown)
next
  case (Got d)
  have 1: "tie_inv fd (emit ctx (Reader_callback False) (s\<lparr>r_b := r_b s @ d\<rparr>))"
    by (rule tie_inv_cong [OF a]) (simp_all add: pair_fields)
  have 2: "tie_inv fd (emit ctx (Reader_callback True)
             (fst (ev_timeout (ev_fd_disable s ev_read (r_fd s)) None Reader_shutdown)))"
    by (rule tie_inv_cong [OF a]) (simp_all add: pair_fields)
  from Got 1 2 show ?thesis by (simp add: pair_fields reader_callback_def Let_def)
qed

lemma tie_inv_fire: "tie_inv fd s \<Longrightarrow> tie_inv fd (fire h s)"
  by (simp add: pair_fields fire_def Let_def tie_inv_writer_shutdown tie_inv_reader_shutdown
        tie_inv_writer_timebound_exceeded split: timeout_callback.splits)

lemma tie_inv_fold_fire: "tie_inv fd s \<Longrightarrow> tie_inv fd (fold fire hs s)"
  by (induction hs arbitrary: s) (simp_all add: pair_fields tie_inv_fire)

lemma tie_inv_run_timeouts: "tie_inv fd s \<Longrightarrow> tie_inv fd (run_timeouts now s)"
proof -
  assume a: "tie_inv fd s"
  have "tie_inv fd (s\<lparr>timeouts := filter (\<lambda>h. \<not> t_when (timeout_store s ! h) \<le> now) (timeouts s)\<rparr>)"
    by (rule tie_inv_cong [OF a]) (simp_all add: pair_fields)
  then show ?thesis by (simp add: pair_fields run_timeouts_def Let_def tie_inv_fold_fire)
qed

lemma tie_inv_ev_step: "tie_inv fd s \<Longrightarrow> tie_inv fd (ev_step s op)"
  by (cases op)
     (simp_all add: pair_fields ev_step_def tie_inv_ev_writer_write tie_inv_ev_writer_close
        tie_inv_writer_callback tie_inv_ev_reader_cancel tie_inv_run_timeouts
        tie_inv_reader_callback)

lemma tie_inv_ev_run: "tie_inv fd s \<Longrightarrow> tie_inv fd (ev_run s ops)"
  unfolding ev_run_def by (induction ops arbitrary: s) (simp_all add: pair_fields tie_inv_ev_step)

lemma tied_pair_Some:
  "tied_pair fd = Some s0 \<Longrightarrow>
     0 \<le> fd \<and> fd < FD_SETSIZE \<and>
     s0 = ev_new\<lparr>w_fd := fd, w_timebound := 600, w_spacebound := 524288,
                 fds := (\<lambda>m. [])(ev_write := [fd], ev_read := [fd]),
                 enabled := (\<lambda>m. {})(ev_write := {}, ev_read := {fd}),
                 r_fd := fd, r_writer := True, w_reader := True\<rparr>"
  by (auto simp: pair_fields tied_pair_def ev_writer_new_def ev_reader_new_def ev_fd_def ev_fd_disable_def
        ev_tie_def ev_new_def Let_def split: option.splits if_splits)

lemma tie_inv_tied_pair: "tied_pair fd = Some s0 \<Longrightarrow> tie_inv fd s0"
  by (drule tied_pair_Some) (simp add: pair_fields tie_inv_def ev_new_def closes_def half_shuts_def)


text \<open>
  C8, as stated, fails in its second half: \<open>writer_callback\<close> and
  \<open>reader_callback\<close> call the shutdown functions directly.  In the run below the
  reader shuts down first (from its zero-delay timeout, half-shutting the socket),
  and when the writer has drained its buffer after \<open>ev_writer_close\<close>,
  \<open>writer_callback\<close> - the write callback of that descriptor - shuts the writer
  down and closes the descriptor itself.
\<close>

lemma tied_pair5: "tied_pair 5 = Some pair5"
  by (simp add: pair_fields tied_pair_def ev_writer_new_def ev_reader_new_def ev_fd_def ev_fd_disable_def
        ev_tie_def ev_new_def pair5_def FD_SETSIZE_def Let_def)

lemma trace_ops5:
  "trace (ev_run pair5 ops5)
     = [(In_fd_callback, Reader_callback True), (In_timeout 0, Sys_shutdown_rd 5),
        (In_fd_callback, Sys_close 5), (In_fd_callback, Writer_callback None)]"
  by (simp add: pair_fields ev_run_def ops5_def pair5_def ev_new_def ev_step_def ev_writer_write_def
        ev_fd_enable_def ev_fd_disable_def writer_set_timebound_def ev_timeout_def
        reader_callback_def ev_writer_close_def run_timeouts_def fire_def reader_shutdown_def
        ev_fd_cancel_def emit_def writer_callback_def ev_timeout_cancel_def writer_shutdown_def
        Let_def)

theorem close_in_fd_callback_counterexample:
  "tied_pair 5 = Some pair5
   \<and> closes (ev_run pair5 ops5) = [(In_fd_callback, Sys_close 5)]"
  by (simp add: pair_fields tied_pair5 closes_def trace_ops5)

lemma fire_context:
  "\<exists>es. trace (fire h s) = trace s @ map (Pair (In_timeout (t_when (timeout_store s ! h)))) es"
proof -
  define c where "c = In_timeout (t_when (timeout_store s ! h))"
  have w: "\<exists>es. trace (writer_shutdown c s') = trace s' @ map (Pair c) es" for s'
  proof (cases "w_fd s' = - 1")
    case True then show ?thesis by (simp add: pair_fields writer_shutdown_def)
  next
    case False
    then have "trace (writer_shutdown c s') = trace s' @ map (Pair c)
        [if w_reader s' then Sys_shutdown_wr (w_fd s') else Sys_close (w_fd s'),
         Writer_callback (w_error s')]"
      by (simp add: pair_fields writer_shutdown_def Let_def emit_def ev_fd_cancel_def ev_timeout_cancel_def
            split: option.splits)
    then show ?thesis by blast
  qed
  have r: "\<exists>es. trace (reader_shutdown c s) = trace s @ map (Pair c) es"
  proof (cases "r_fd s = - 1")
    case True then show ?thesis by (simp add: pair_fields reader_shutdown_def)
  next
    case False
    then have "trace (reader_shutdown c s) = trace s @ map (Pair c)
        ([if r_writer s then Sys_shutdown_rd (r_fd s) else Sys_close (r_fd s)]
         @ (case r_error s of None \<Rightarrow> [] | Some e \<Rightarrow> [Reader_error_callback e]))"
      by (simp add: pair_fields reader_shutdown_def Let_def emit_def ev_fd_cancel_def split: option.splits)
    then show ?thesis by blast
  qed
  have t: "\<exists>es. trace (writer_timebound_exceeded c s) = trace s @ map (Pair c) es"
    using w [of s] w [of "s\<lparr>w_abandoned := True, w_error := Some ETIMEDOUT\<rparr>"]
    by (simp add: pair_fields writer_timebound_exceeded_def Let_def)
  from w [of s] r t show ?thesis
    by (simp add: pair_fields fire_def Let_def c_def split: timeout_callback.splits)
qed

text \<open>
  C8 (amended): for a reader and a writer tied on one descriptor, after any sequence
  of application calls and event-loop callbacks the descriptor has been closed
  exactly once if both sides have shut down and not at all otherwise, and half-shut
  exactly once as soon as one side has shut down: in either order the first side to
  shut down only half-shuts the socket and unties, and the second closes.  The
  close is made inside \<open>writer_shutdown\<close> or \<open>reader_shutdown\<close>.  A shutdown
  requested through \<open>ev_writer_close\<close> (with an empty buffer), \<open>ev_reader_cancel\<close>,
  the space-bound abandon of \<open>ev_writer_write\<close> or end of file on the reader is
  not performed in the requesting call: the call has no effect on the descriptor
  and registers the shutdown function as a zero-delay timeout, and a timeout
  callback's effects happen inside that timeout callback.  (On a write or read
  error, when the buffer drains after \<open>ev_writer_close\<close>, and on time-bound
  expiry the shutdown function is called directly instead.)
\<close>

theorem tied_pair_closed_once:
  assumes "tied_pair fd = Some s0"
  shows "length (closes (ev_run s0 ops))
           = (if w_fd (ev_run s0 ops) = - 1 \<and> r_fd (ev_run s0 ops) = - 1 then 1 else 0)
       \<and> length (half_shuts (ev_run s0 ops))
           = (if w_fd (ev_run s0 ops) = - 1 \<or> r_fd (ev_run s0 ops) = - 1 then 1 else 0)
       \<and> trace (reader_shutdown c2 (writer_shutdown c1 s0))
           = [(c1, Sys_shutdown_wr fd), (c1, Writer_callback None), (c2, Sys_close fd)]
       \<and> trace (writer_shutdown c2 (reader_shutdown c1 s0))
           = [(c1, Sys_shutdown_rd fd), (c2, Sys_close fd), (c2, Writer_callback None)]
       \<and> trace (ev_writer_close s) = trace s
       \<and> trace (ev_reader_cancel s) = trace s
       \<and> trace (ev_writer_write now s d) = trace s
       \<and> trace (reader_callback ctx (Got []) s) = trace s @ [(ctx, Reader_callback True)]
       \<and> (\<not> w_eof s \<and> w_b s = [] \<longrightarrow> scheduled s (ev_writer_close s) Writer_shutdown)
       \<and> (r_fd s \<noteq> - 1 \<longrightarrow> scheduled s (ev_reader_cancel s) Reader_shutdown)
       \<and> (d \<noteq> [] \<and> w_spacebound s \<noteq> 0 \<and> \<not> w_abandoned s
            \<and> int (length (w_b s)) + int (length d) > w_spacebound s
            \<longrightarrow> scheduled s (ev_writer_write now s d) Writer_shutdown)
       \<and> scheduled s (reader_callback ctx (Got []) s) Reader_shutdown
       \<and> (\<exists>es. trace (fire h s)
                 = trace s @ map (Pair (In_timeout (t_when (timeout_store s ! h)))) es)"
proof -
  from tie_inv_ev_run [OF tie_inv_tied_pair [OF assms], of ops]
  have inv: "tie_inv fd (ev_run s0 ops)" .
  from tied_pair_Some [OF assms] have fd: "0 \<le> fd"
    and s0: "s0 = ev_new\<lparr>w_fd := fd, w_timebound := 600, w_spacebound := 524288,
                 fds := (\<lambda>m. [])(ev_write := [fd], ev_read := [fd]),
                 enabled := (\<lambda>m. {})(ev_write := {}, ev_read := {fd}),
                 r_fd := fd, r_writer := True, w_reader := True\<rparr>" by (simp_all add: pair_fields)
  have 1: "length (closes (ev_run s0 ops))
           = (if w_fd (ev_run s0 ops) = - 1 \<and> r_fd (ev_run s0 ops) = - 1 then 1 else 0)"
    using inv by (simp add: pair_fields tie_inv_def)
  have 2: "length (half_shuts (ev_run s0 ops))
           = (if w_fd (ev_run s0 ops) = - 1 \<or> r_fd (ev_run s0 ops) = - 1 then 1 else 0)"
    using inv by (simp add: pair_fields tie_inv_def)
  have 3: "trace (reader_shutdown c2 (writer_shutdown c1 s0))
           = [(c1, Sys_shutdown_wr fd), (c1, Writer_callback None), (c2, Sys_close fd)]"
    using fd by (simp add: pair_fields s0 ev_new_def writer_shutdown_def reader_shutdown_def Let_def
        ev_fd_cancel_def ev_timeout_cancel_def emit_def)
  have 4: "trace (writer_shutdown c2 (reader_shutdown c1 s0))
           = [(c1, Sys_shutdown_rd fd), (c2, Sys_close fd), (c2, Writer_callback None)]"
    using fd by (simp add: pair_fields s0 ev_new_def writer_shutdown_def reader_shutdown_def Let_def
        ev_fd_cancel_def ev_timeout_cancel_def emit_def)
  have 5: "trace (ev_writer_close s) = trace s"
    by (simp add: pair_fields ev_writer_close_def Let_def)
  have 6: "trace (ev_reader_cancel s) = trace s"
    by (simp add: pair_fields ev_reader_cancel_def)
  have 7: "trace (ev_writer_write now s d) = trace s"
    by (simp add: pair_fields ev_writer_write_def Let_def writer_set_timebound_def split_def)
  have 8: "trace (reader_callback ctx (Got []) s) = trace s @ [(ctx, Reader_callback True)]"
    by (simp add: pair_fields reader_callback_def Let_def emit_def)
  have 9: "\<not> w_eof s \<and> w_b s = [] \<longrightarrow> scheduled s (ev_writer_close s) Writer_shutdown"
    by (simp add: pair_fields scheduled_def ev_writer_close_def Let_def ev_timeout_def zero_delay_def)
  have 10: "r_fd s \<noteq> - 1 \<longrightarrow> scheduled s (ev_reader_cancel s) Reader_shutdown"
    by (simp add: pair_fields scheduled_def ev_reader_cancel_def Let_def ev_timeout_def zero_delay_def
          ev_fd_disable_def)
  have 11: "d \<noteq> [] \<and> w_spacebound s \<noteq> 0 \<and> \<not> w_abandoned s
            \<and> int (length (w_b s)) + int (length d) > w_spacebound s
            \<longrightarrow> scheduled s (ev_writer_write now s d) Writer_shutdown"
    by (simp add: pair_fields scheduled_def ev_writer_write_def Let_def ev_timeout_def zero_delay_def
          ev_fd_disable_def)
  have 12: "scheduled s (reader_callback ctx (Got []) s) Reader_shutdown"
    by (simp add: pair_fields scheduled_def reader_callback_def Let_def ev_timeout_def zero_delay_def
          ev_fd_disable_def emit_def)
  from 1 2 3 4 5 6 7 8 9 10 11 12 fire_context [of h s] show ?thesis by blast
qed

lemma fds_ops5: "w_fd (ev_run pair5 ops5) = - 1" "r_fd (ev_run pair5 ops5) = - 1"
  by (simp_all add: pair_fields ev_run_def ops5_def pair5_def ev_new_def ev_step_def ev_writer_write_def
        ev_fd_enable_def ev_fd_disable_def writer_set_timebound_def ev_timeout_def
        reader_callback_def ev_writer_close_def run_timeouts_def fire_def reader_shutdown_def
        ev_fd_cancel_def emit_def writer_callback_def ev_timeout_cancel_def writer_shutdown_def
        Let_def)

theorem tied_pair_closed_once_witness:
  "tied_pair 5 = Some pair5
   \<and> length (closes (ev_run pair5 ops5)) = 1
   \<and> w_fd (ev_run pair5 ops5) = - 1 \<and> r_fd (ev_run pair5 ops5) = - 1
   \<and> length (half_shuts (ev_run pair5 ops5)) = 1
   \<and> trace (reader_shutdown (In_timeout 0) (writer_shutdown In_fd_callback pair5))
       = [(In_fd_callback, Sys_shutdown_wr 5), (In_fd_callback, Writer_callback None),
          (In_timeout 0, Sys_close 5)]
   \<and> scheduled pair5 (ev_writer_close pair5) Writer_shutdown
   \<and> scheduled pair5 (ev_reader_cancel pair5) Reader_shutdown
   \<and> scheduled (pair5\<lparr>w_spacebound := 4\<rparr>)
        (ev_writer_write 0 (pair5\<lparr>w_spacebound := 4\<rparr>) ''hello'') Writer_shutdown"
proof -
  note t1 = tied_pair_closed_once [OF tied_pair5, of ops5 "In_timeout 0" In_fd_callback pair5 0 "[]"]
  note t2 = tied_pair_closed_once [OF tied_pair5, of ops5 "In_timeout 0" In_fd_callback
           "pair5\<lparr>w_spacebound := 4\<rparr>" 0 "''hello''"]
  from t1 have a: "length (closes (ev_run pair5 ops5)) = 1"
    "length (half_shuts (ev_run pair5 ops5)) = 1"
    by (simp_all add: pair_fields fds_ops5)
  from t1 have b: "trace (reader_shutdown (In_timeout 0) (writer_shutdown In_fd_callback pair5))
       = [(In_fd_callback, Sys_shutdown_wr 5), (In_fd_callback, Writer_callback None),
          (In_timeout 0, Sys_close 5)]" by blast
  have p: "\<not> w_eof pair5" "w_b pair5 = []" "r_fd pair5 \<noteq> - 1"
    "w_spacebound (pair5\<lparr>w_spacebound := 4\<rparr>) \<noteq> 0" "\<not> w_abandoned (pair5\<lparr>w_spacebound := 4\<rparr>)"
    "int (length (w_b (pair5\<lparr>w_spacebound := 4\<rparr>))) + int (length ''hello'')
       > w_spacebound (pair5\<lparr>w_spacebound := 4\<rparr>)"
    by (simp_all add: pair_fields pair5_def ev_new_def)
  from t1 p have c: "scheduled pair5 (ev_writer_close pair5) Writer_shutdown"
    "scheduled pair5 (ev_reader_cancel pair5) Reader_shutdown" by blast+
  from t2 p have d: "scheduled (pair5\<lparr>w_spacebound := 4\<rparr>)
        (ev_writer_write 0 (pair5\<lparr>w_spacebound := 4\<rparr>) ''hello'') Writer_shutdown"
    by blast
  from a b c d tied_pair5 fds_ops5 show ?thesis by simp
qed

subsection \<open>The bounds of a buffered writer\<close>

lemma ev_writer_new_defaults:
  "ev_writer_new s fd = Some s' \<Longrightarrow>
     w_timebound s' = 600 \<and> w_spacebound s' = 524288 \<and> \<not> w_abandoned s' \<and> w_b s' = []
     \<and> w_fd s' = fd \<and> 0 \<le> fd \<and> fd \<notin> enabled s' ev_write"
  by (auto simp: ev_writer_new_def ev_fd_def ev_fd_disable_def Let_def split: if_splits)

lemma ev_writer_write_over:
  assumes "w_spacebound s = 524288" "\<not> w_abandoned s" "0 \<le> w_fd s" "d \<noteq> []"
    and "int (length (w_b s)) + int (length d) > 524288"
  shows "w_abandoned (ev_writer_write now s d)"
    and "w_error (ev_writer_write now s d) = Some EPIPE"
    and "w_b (ev_writer_write now s d) = w_b s"
    and "scheduled s (ev_writer_write now s d) Writer_shutdown"
    and "w_fd s \<notin> enabled (ev_writer_write now s d) ev_write"
  using assms
  by (simp_all add: ev_writer_write_def Let_def ev_fd_disable_def ev_timeout_def scheduled_def
        zero_delay_def)

lemma writer_set_timebound_keeps:
  "w_b (writer_set_timebound now s) = w_b s"
  "w_abandoned (writer_set_timebound now s) = w_abandoned s"
  "w_error (writer_set_timebound now s) = w_error s"
  "trace (writer_set_timebound now s) = trace s"
  by (simp_all add: writer_set_timebound_def ev_timeout_def Let_def)

lemma ev_writer_write_within:
  assumes "w_spacebound s = 524288" "d \<noteq> []"
    and "int (length (w_b s)) + int (length d) \<le> 524288"
  shows "w_b (ev_writer_write now s d) = w_b s @ d"
    and "w_abandoned (ev_writer_write now s d) = w_abandoned s"
    and "w_error (ev_writer_write now s d) = w_error s"
  using assms
  by (simp_all add: ev_writer_write_def Let_def writer_set_timebound_keeps ev_fd_enable_def)

lemma armed_first_write:
  assumes "idle_writer s" "d \<noteq> []" "int (length d) \<le> 524288"
  shows "armed now (ev_writer_write now s d)"
  using assms
  by (auto simp: idle_writer_def armed_def ev_writer_write_def Let_def ev_fd_enable_def
        writer_set_timebound_def ev_timeout_def nth_append list_all_iff
        filter_empty_conv cong: filter_cong)


lemma armed_timeout_E:
  assumes "armed t0 s"
  obtains h where "w_timeout s = Some h"
    and "filter (\<lambda>h'. t_active (timeout_store s ! h')) (timeouts s) = [h]"
    and "timeout_store s ! h
                = \<lparr>t_when = t0 + 600000000, t_callback = Writer_timebound_exceeded,
                   t_active = True\<rparr>"
  using assms by (auto simp: armed_def split: option.splits)

lemma kept_filter:
  "filter (\<lambda>h. t_active (st ! h)) (sort_key (\<lambda>h. t_when (st ! h)) (filter (\<lambda>h. t_when (st ! h) \<le> now) ts))
     = sort_key (\<lambda>h. t_when (st ! h)) (filter (\<lambda>h. t_when (st ! h) \<le> now) (filter (\<lambda>h. t_active (st ! h)) ts))"
  by (simp add: filter_sort) metis

lemma early_timeouts_eq:
  assumes a: "armed t0 s" and n: "now < t0 + 600000000"
  shows "run_timeouts now s
           = s\<lparr>timeouts := filter (\<lambda>h. \<not> t_when (timeout_store s ! h) \<le> now) (timeouts s)\<rparr>"
proof -
  from a obtain h where h: "w_timeout s = Some h"
    "filter (\<lambda>h'. t_active (timeout_store s ! h')) (timeouts s) = [h]"
    "timeout_store s ! h = \<lparr>t_when = t0 + 600000000, t_callback = Writer_timebound_exceeded,
                   t_active = True\<rparr>"
    by (rule armed_timeout_E)
  have kept: "filter (\<lambda>h. t_active (timeout_store s ! h))
       (sort_key (\<lambda>h. t_when (timeout_store s ! h))
          (filter (\<lambda>h. t_when (timeout_store s ! h) \<le> now) (timeouts s))) = []"
    using h n by (simp add: kept_filter)
  then show ?thesis by (simp add: run_timeouts_def Let_def)
qed

lemma armed_early_timeouts:
  assumes a: "armed t0 s" and n: "now < t0 + 600000000"
  shows "armed t0 (run_timeouts now s)"
proof -
  from a obtain h where h: "w_timeout s = Some h"
    "filter (\<lambda>h'. t_active (timeout_store s ! h')) (timeouts s) = [h]"
    "timeout_store s ! h = \<lparr>t_when = t0 + 600000000, t_callback = Writer_timebound_exceeded,
                   t_active = True\<rparr>"
    by (rule armed_timeout_E)
  have kept: "filter (\<lambda>h. t_active (timeout_store s ! h))
       (sort_key (\<lambda>h. t_when (timeout_store s ! h))
          (filter (\<lambda>h. t_when (timeout_store s ! h) \<le> now) (timeouts s))) = []"
    using h n by (simp add: kept_filter)
  have rest: "filter (\<lambda>h'. t_active (timeout_store s ! h'))
       (filter (\<lambda>h. \<not> t_when (timeout_store s ! h) \<le> now) (timeouts s)) = [h]"
  proof -
    have "filter (\<lambda>h'. t_active (timeout_store s ! h'))
       (filter (\<lambda>h. \<not> t_when (timeout_store s ! h) \<le> now) (timeouts s))
      = filter (\<lambda>h. \<not> t_when (timeout_store s ! h) \<le> now)
         (filter (\<lambda>h'. t_active (timeout_store s ! h')) (timeouts s))"
      by (simp add: conj_commute)
    with h n show ?thesis by simp
  qed
  from a h kept rest show ?thesis
    by (simp add: run_timeouts_def Let_def armed_def list_all_iff)
qed

lemma armed_cong:
  assumes "armed t0 s"
    and "aborted s' = aborted s" "w_fd s' = w_fd s" "w_abandoned s' = w_abandoned s"
    and "w_timebound s' = w_timebound s" "w_spacebound s' = w_spacebound s"
    and "w_b s' \<noteq> []" "fds s' = fds s" "enabled s' = enabled s"
    and "timeout_store s' = timeout_store s" "timeouts s' = timeouts s"
    and "w_timeout s' = w_timeout s"
  shows "armed t0 s'"
  using assms by (simp add: armed_def split: option.splits)

lemma writer_callback_again:
  "res = Failed EAGAIN \<or> res = Failed EINTR \<Longrightarrow> writer_callback ctx now res s = s"
  by (auto simp: writer_callback_def)

lemma armed_quiet_op:
  assumes a: "armed t0 s" and q: "quiet_op t0 s op"
  shows "armed t0 (ev_step s op)"
proof (cases op)
  case (App_write now d)
  with a q show ?thesis
    by (auto simp: ev_step_def armed_def ev_writer_write_def Let_def writer_set_timebound_def
          split: option.splits)
next
  case (Loop_timeouts now)
  with a q armed_early_timeouts [OF a, of now] show ?thesis
    by (simp add: ev_step_def armed_def)
next
  case (Loop_writable now res)
  with q have "writer_callback In_fd_callback now res s = s"
    by (simp add: writer_callback_again)
  with a Loop_writable show ?thesis by (simp add: ev_step_def)
next
  case (App_flush now res)
  with q have "writer_callback In_call now res s = s"
    by (simp add: writer_callback_again)
  with a App_flush show ?thesis by (simp add: ev_step_def)
next
  case (Loop_readable res)
  with q obtain d where d: "res = Got d" "d \<noteq> []" by (auto split: read_result.splits)
  have "armed t0 (emit In_fd_callback (Reader_callback False) (s\<lparr>r_b := r_b s @ d\<rparr>))"
    using a by (rule armed_cong) (use a in \<open>simp_all add: emit_def armed_def\<close>)
  with a d Loop_readable show ?thesis
    by (simp add: ev_step_def reader_callback_def)
next
  case App_close with q show ?thesis by simp
next
  case App_cancel with q show ?thesis by simp
qed

lemma armed_quiet_run:
  "armed t0 s \<Longrightarrow> quiet_run t0 s ops \<Longrightarrow> armed t0 (ev_run s ops)"
  unfolding ev_run_def
  by (induction ops arbitrary: s) (simp_all add: armed_quiet_op)

lemma armed_expires:
  assumes a: "armed t0 s" and n: "t0 + 600000000 \<le> now"
  shows "ev_step s (Loop_timeouts now)
           = writer_timebound_exceeded (In_timeout (t0 + 600000000))
               (s\<lparr>timeouts := filter (\<lambda>h. \<not> t_when (timeout_store s ! h) \<le> now) (timeouts s)\<rparr>)"
proof -
  from a obtain h where h: "w_timeout s = Some h"
    "filter (\<lambda>h'. t_active (timeout_store s ! h')) (timeouts s) = [h]"
    "timeout_store s ! h = \<lparr>t_when = t0 + 600000000, t_callback = Writer_timebound_exceeded,
                   t_active = True\<rparr>"
    by (rule armed_timeout_E)
  have kept: "filter (\<lambda>h. t_active (timeout_store s ! h))
       (sort_key (\<lambda>h. t_when (timeout_store s ! h))
          (filter (\<lambda>h. t_when (timeout_store s ! h) \<le> now) (timeouts s))) = [h]"
    using h n by (simp add: kept_filter)
  from a have "\<not> aborted s" by (simp add: armed_def)
  with kept h show ?thesis
    by (simp add: ev_step_def run_timeouts_def Let_def fire_def)
qed

lemma armed_abandoned:
  assumes a: "armed t0 s" and n: "t0 + 600000000 \<le> now"
  shows "w_abandoned (ev_step s (Loop_timeouts now))"
    and "w_error (ev_step s (Loop_timeouts now)) = Some ETIMEDOUT"
    and "w_fd (ev_step s (Loop_timeouts now)) = - 1"
    and "trace (ev_step s (Loop_timeouts now))
          = trace s @ map (Pair (In_timeout (t0 + 600000000)))
              [if w_reader s then Sys_shutdown_wr (w_fd s) else Sys_close (w_fd s),
               Writer_callback (Some ETIMEDOUT)]"
  using a
  by (simp_all add: armed_expires [OF a n] armed_def writer_timebound_exceeded_def
        writer_shutdown_def Let_def ev_fd_cancel_def ev_timeout_cancel_def emit_def
        split: option.splits)

lemma armed_partial_write:
  assumes a: "armed t0 s" and k: "k < length (w_b s)"
  shows "armed now (ev_step s (Loop_writable now (Done k)))"
proof -
  from a obtain h where h: "w_timeout s = Some h"
    "filter (\<lambda>h'. t_active (timeout_store s ! h')) (timeouts s) = [h]"
    "timeout_store s ! h = \<lparr>t_when = t0 + 600000000, t_callback = Writer_timebound_exceeded,
                   t_active = True\<rparr>"
    by (rule armed_timeout_E)
  from a have lt: "\<forall>h' \<in> set (timeouts s). h' < length (timeout_store s)"
    by (simp add: armed_def list_all_iff)
  from h(2) have "h \<in> set (filter (\<lambda>h'. t_active (timeout_store s ! h')) (timeouts s))" by simp
  then have hin: "h \<in> set (timeouts s)" by simp
  with lt have hl: "h < length (timeout_store s)" by simp
  let ?st = "(timeout_store s)[h := (timeout_store s ! h)\<lparr>t_active := False\<rparr>]"
  have act: "t_active (?st ! h') \<longleftrightarrow> h' \<noteq> h \<and> t_active (timeout_store s ! h')"
    if "h' < length (timeout_store s)" for h'
    using that hl by (simp add: nth_list_update)
  have "filter (\<lambda>h'. t_active (?st ! h')) (timeouts s)
        = filter (\<lambda>h'. h' \<noteq> h \<and> t_active (timeout_store s ! h')) (timeouts s)"
    using lt act by (auto intro: filter_cong)
  also have "\<dots> = filter (\<lambda>h'. h' \<noteq> h) (filter (\<lambda>h'. t_active (timeout_store s ! h')) (timeouts s))"
    by (simp add: conj_commute)
  also have "\<dots> = []" using h(2) by simp
  finally have none: "filter (\<lambda>h'. t_active (?st ! h')) (timeouts s) = []" .
  have none': "filter (\<lambda>h'. t_active ((?st @ [t]) ! h')) (timeouts s) = []" for t
  proof -
    have "filter (\<lambda>h'. t_active ((?st @ [t]) ! h')) (timeouts s)
          = filter (\<lambda>h'. t_active (?st ! h')) (timeouts s)"
      using lt by (auto intro!: filter_cong simp: nth_append)
    with none show ?thesis by simp
  qed
  from a k h hl none' lt show ?thesis
    by (auto simp: ev_step_def armed_def writer_callback_def Let_def ev_timeout_cancel_def
          writer_set_timebound_def ev_timeout_def list_all_iff nth_append)
qed


lemma quiet_op_fds:
  assumes a1: "armed t0 s" and q: "quiet_op t0 s op"
  shows "fds (ev_step s op) = fds s"
proof (cases op)
  case (App_write x y)
  then show ?thesis
    by (simp add: ev_step_def ev_writer_write_def Let_def writer_set_timebound_def
          ev_timeout_def ev_fd_disable_def ev_fd_enable_def split_def)
next
  case (Loop_timeouts x)
  with q early_timeouts_eq [OF a1, of x] show ?thesis
    by (simp add: ev_step_def)
next
  case (Loop_writable x y)
  with q show ?thesis by (simp add: ev_step_def writer_callback_again)
next
  case (App_flush x y)
  with q show ?thesis by (simp add: ev_step_def writer_callback_again)
next
  case (Loop_readable y)
  with q show ?thesis
    by (auto simp: ev_step_def reader_callback_def emit_def split: read_result.splits)
next
  case App_close with q show ?thesis by simp
next
  case App_cancel with q show ?thesis by simp
qed

lemma quiet_run_w_fd:
  "armed t0 s \<Longrightarrow> quiet_run t0 s ops \<Longrightarrow> w_fd (ev_run s ops) = w_fd s"
proof (induction ops arbitrary: s)
  case Nil then show ?case by (simp add: ev_run_def)
next
  case (Cons op ops)
  from Cons.prems have a1: "armed t0 s" and q: "quiet_op t0 s op"
    and qr: "quiet_run t0 (ev_step s op) ops" by simp_all
  from armed_quiet_op [OF a1 q] have a2: "armed t0 (ev_step s op)" .
  from a1 a2 have "fds s ev_write = [w_fd s]" "fds (ev_step s op) ev_write = [w_fd (ev_step s op)]"
    by (simp_all add: armed_def)
  with quiet_op_fds [OF a1 q] have "w_fd (ev_step s op) = w_fd s" by simp
  moreover from Cons.IH [OF a2 qr]
  have "w_fd (ev_run (ev_step s op) ops) = w_fd (ev_step s op)" .
  ultimately show ?case by (simp add: ev_run_def)
qed

text \<open>
  C7: a writer made by \<open>ev_writer_new\<close> has a time bound of 600 seconds and a space
  bound of 512 KiB.  For a writer with that space bound that is up and not yet
  abandoned, writing \<open>n > 0\<close> bytes onto \<open>b\<close> unsent bytes abandons it exactly when
  \<open>b + n\<close> exceeds 512 KiB: then the writer is marked abandoned, its error is set
  to \<open>EPIPE\<close>, writing is disabled, \<open>writer_shutdown\<close> is registered as a zero-delay
  timeout and the bytes are not buffered; otherwise the bytes are appended to the
  buffer and the writer is not abandoned.  And the time bound: the first write into
  an empty buffer, and every successful write that leaves data behind, arm the
  time-bound timeout for 600 seconds later; through any stretch without a
  successful write the timeout stays armed; and the first iteration of the loop at
  or after that time abandons the writer with \<open>ETIMEDOUT\<close>, shuts it down and
  passes \<open>ETIMEDOUT\<close> to its callback.
\<close>

theorem writer_bounds:
  "(ev_writer_new s0 fd = Some s \<longrightarrow>
      w_timebound s = 600 \<and> w_spacebound s = 524288 \<and> \<not> w_abandoned s \<and> w_b s = []
      \<and> w_fd s = fd \<and> 0 \<le> fd)
   \<and> (w_spacebound s = 524288 \<and> \<not> w_abandoned s \<and> 0 \<le> w_fd s \<and> d \<noteq> [] \<longrightarrow>
        (if int (length (w_b s)) + int (length d) > 512 * 1024
         then w_abandoned (ev_writer_write now s d)
              \<and> w_error (ev_writer_write now s d) = Some EPIPE
              \<and> scheduled s (ev_writer_write now s d) Writer_shutdown
              \<and> w_b (ev_writer_write now s d) = w_b s
              \<and> w_fd s \<notin> enabled (ev_writer_write now s d) ev_write
         else \<not> w_abandoned (ev_writer_write now s d)
              \<and> w_error (ev_writer_write now s d) = w_error s
              \<and> w_b (ev_writer_write now s d) = w_b s @ d))
   \<and> (idle_writer s \<and> d \<noteq> [] \<and> int (length d) \<le> 512 * 1024 \<longrightarrow>
        armed now (ev_writer_write now s d))
   \<and> (armed t0 s \<and> k < length (w_b s) \<longrightarrow>
        armed now (ev_step s (Loop_writable now (Done k))))
   \<and> (armed t0 s \<and> quiet_run t0 s ops \<and> t0 + 600 * 1000000 \<le> now \<longrightarrow>
        w_abandoned (ev_run s (ops @ [Loop_timeouts now]))
        \<and> w_error (ev_run s (ops @ [Loop_timeouts now])) = Some ETIMEDOUT
        \<and> w_fd (ev_run s (ops @ [Loop_timeouts now])) = - 1
        \<and> trace (ev_run s (ops @ [Loop_timeouts now]))
            = trace (ev_run s ops)
              @ map (Pair (In_timeout (t0 + 600 * 1000000)))
                  [if w_reader (ev_run s ops) then Sys_shutdown_wr (w_fd s)
                   else Sys_close (w_fd s),
                   Writer_callback (Some ETIMEDOUT)])"
proof -
  have p1: "ev_writer_new s0 fd = Some s \<longrightarrow>
      w_timebound s = 600 \<and> w_spacebound s = 524288 \<and> \<not> w_abandoned s \<and> w_b s = []
      \<and> w_fd s = fd \<and> 0 \<le> fd"
    using ev_writer_new_defaults [of s0 fd s] by simp
  have p2: "w_spacebound s = 524288 \<and> \<not> w_abandoned s \<and> 0 \<le> w_fd s \<and> d \<noteq> [] \<longrightarrow>
        (if int (length (w_b s)) + int (length d) > 512 * 1024
         then w_abandoned (ev_writer_write now s d)
              \<and> w_error (ev_writer_write now s d) = Some EPIPE
              \<and> scheduled s (ev_writer_write now s d) Writer_shutdown
              \<and> w_b (ev_writer_write now s d) = w_b s
              \<and> w_fd s \<notin> enabled (ev_writer_write now s d) ev_write
         else \<not> w_abandoned (ev_writer_write now s d)
              \<and> w_error (ev_writer_write now s d) = w_error s
              \<and> w_b (ev_writer_write now s d) = w_b s @ d)"
  proof
    assume a: "w_spacebound s = 524288 \<and> \<not> w_abandoned s \<and> 0 \<le> w_fd s \<and> d \<noteq> []"
    show "if int (length (w_b s)) + int (length d) > 512 * 1024
         then w_abandoned (ev_writer_write now s d)
              \<and> w_error (ev_writer_write now s d) = Some EPIPE
              \<and> scheduled s (ev_writer_write now s d) Writer_shutdown
              \<and> w_b (ev_writer_write now s d) = w_b s
              \<and> w_fd s \<notin> enabled (ev_writer_write now s d) ev_write
         else \<not> w_abandoned (ev_writer_write now s d)
              \<and> w_error (ev_writer_write now s d) = w_error s
              \<and> w_b (ev_writer_write now s d) = w_b s @ d"
    proof (cases "int (length (w_b s)) + int (length d) > 524288")
      case True
      with a ev_writer_write_over [of s d now] show ?thesis by simp
    next
      case False
      with a ev_writer_write_within [of s d now] show ?thesis by simp
    qed
  qed
  have p3: "idle_writer s \<and> d \<noteq> [] \<and> int (length d) \<le> 512 * 1024 \<longrightarrow>
        armed now (ev_writer_write now s d)"
    by (simp add: armed_first_write)
  have p4: "armed t0 s \<and> k < length (w_b s) \<longrightarrow>
        armed now (ev_step s (Loop_writable now (Done k)))"
    by (auto intro: armed_partial_write)
  have p5: "armed t0 s \<and> quiet_run t0 s ops \<and> t0 + 600 * 1000000 \<le> now \<longrightarrow>
        w_abandoned (ev_run s (ops @ [Loop_timeouts now]))
        \<and> w_error (ev_run s (ops @ [Loop_timeouts now])) = Some ETIMEDOUT
        \<and> w_fd (ev_run s (ops @ [Loop_timeouts now])) = - 1
        \<and> trace (ev_run s (ops @ [Loop_timeouts now]))
            = trace (ev_run s ops)
              @ map (Pair (In_timeout (t0 + 600 * 1000000)))
                  [if w_reader (ev_run s ops) then Sys_shutdown_wr (w_fd s)
                   else Sys_close (w_fd s),
                   Writer_callback (Some ETIMEDOUT)]"
  proof
    assume a: "armed t0 s \<and> quiet_run t0 s ops \<and> t0 + 600 * 1000000 \<le> now"
    then have ar: "armed t0 (ev_run s ops)" by (auto intro: armed_quiet_run)
    from a have n: "t0 + 600000000 \<le> now" by simp
    have run: "ev_run s (ops @ [Loop_timeouts now]) = ev_step (ev_run s ops) (Loop_timeouts now)"
      by (simp add: ev_run_def)
    from a have "w_fd (ev_run s ops) = w_fd s" by (auto intro: quiet_run_w_fd)
    with armed_abandoned [OF ar n] run
    show "w_abandoned (ev_run s (ops @ [Loop_timeouts now]))
        \<and> w_error (ev_run s (ops @ [Loop_timeouts now])) = Some ETIMEDOUT
        \<and> w_fd (ev_run s (ops @ [Loop_timeouts now])) = - 1
        \<and> trace (ev_run s (ops @ [Loop_timeouts now]))
            = trace (ev_run s ops)
              @ map (Pair (In_timeout (t0 + 600 * 1000000)))
                  [if w_reader (ev_run s ops) then Sys_shutdown_wr (w_fd s)
                   else Sys_close (w_fd s),
                   Writer_callback (Some ETIMEDOUT)]"
      by simp
  qed
  show ?thesis by (intro conjI p1 p2 p3 p4 p5)
qed


lemma idle_pair5: "idle_writer pair5"
  by (simp add: idle_writer_def pair5_def ev_new_def)

lemma quiet_quiet5: "quiet_run 0 (ev_writer_write 0 pair5 ''hello'') quiet5"
  by (simp add: quiet5_def pair5_def ev_new_def ev_writer_write_def ev_fd_enable_def
        writer_set_timebound_def ev_timeout_def ev_step_def writer_callback_def
        reader_callback_def emit_def run_timeouts_def Let_def)

theorem writer_bounds_witness:
  "ev_writer_new ev_new 5 \<noteq> None
   \<and> w_spacebound (the (ev_writer_new ev_new 5)) = 524288
   \<and> w_timebound (the (ev_writer_new ev_new 5)) = 600
   \<and> w_b (ev_writer_write 0 nearly_full ''y'') = replicate 524287 CHR ''x'' @ ''y''
   \<and> \<not> w_abandoned (ev_writer_write 0 nearly_full ''y'')
   \<and> w_abandoned (ev_writer_write 0 nearly_full ''yz'')
   \<and> w_error (ev_writer_write 0 nearly_full ''yz'') = Some EPIPE
   \<and> scheduled nearly_full (ev_writer_write 0 nearly_full ''yz'') Writer_shutdown
   \<and> armed 0 (ev_writer_write 0 pair5 ''hello'')
   \<and> armed 7 (ev_step (ev_writer_write 0 pair5 ''hello'') (Loop_writable 7 (Done 2)))
   \<and> w_abandoned (ev_run (ev_writer_write 0 pair5 ''hello'') (quiet5 @ [Loop_timeouts 600000000]))
   \<and> w_error (ev_run (ev_writer_write 0 pair5 ''hello'') (quiet5 @ [Loop_timeouts 600000000]))
       = Some ETIMEDOUT
   \<and> w_fd (ev_run (ev_writer_write 0 pair5 ''hello'') (quiet5 @ [Loop_timeouts 600000000])) = - 1"
proof -
  obtain w5 where w5: "ev_writer_new ev_new 5 = Some w5"
    by (simp add: ev_writer_new_def ev_fd_def FD_SETSIZE_def Let_def)
  note t1 = writer_bounds [where ?s0.0 = ev_new and fd = 5 and s = w5]
  note t2 = writer_bounds [where s = nearly_full and d = "''y''" and now = 0]
  note t3 = writer_bounds [where s = nearly_full and d = "''yz''" and now = 0]
  note t4 = writer_bounds [where s = pair5 and d = "''hello''" and now = 0]
  note t5 = writer_bounds [where s = "ev_writer_write 0 pair5 ''hello''" and ?t0.0 = 0 and k = 2
              and now = 7 and ops = quiet5]
  note t6 = writer_bounds [where s = "ev_writer_write 0 pair5 ''hello''" and ?t0.0 = 0
              and now = 600000000 and ops = quiet5]
  have nf: "w_spacebound nearly_full = 524288" "\<not> w_abandoned nearly_full"
    "0 \<le> w_fd nearly_full" "int (length (w_b nearly_full)) = 524287"
    "w_error nearly_full = None" "w_b nearly_full = replicate 524287 CHR ''x''"
    by (simp_all add: nearly_full_def pair5_def ev_new_def)
  from t1 w5 have a: "w_spacebound w5 = 524288" "w_timebound w5 = 600" by simp_all
  from t2 nf have b: "w_b (ev_writer_write 0 nearly_full ''y'') = replicate 524287 CHR ''x'' @ ''y''"
    "\<not> w_abandoned (ev_writer_write 0 nearly_full ''y'')" by simp_all
  from t3 nf have c: "w_abandoned (ev_writer_write 0 nearly_full ''yz'')"
    "w_error (ev_writer_write 0 nearly_full ''yz'') = Some EPIPE"
    "scheduled nearly_full (ev_writer_write 0 nearly_full ''yz'') Writer_shutdown" by simp_all
  from t4 idle_pair5 have d: "armed 0 (ev_writer_write 0 pair5 ''hello'')" by simp
  have len: "w_b (ev_writer_write 0 pair5 ''hello'') = ''hello''"
    by (simp add: pair5_def ev_new_def ev_writer_write_def ev_fd_enable_def
        writer_set_timebound_def ev_timeout_def Let_def)
  from t5 d len have e: "armed 7 (ev_step (ev_writer_write 0 pair5 ''hello'') (Loop_writable 7 (Done 2)))"
    by simp
  from t6 d quiet_quiet5 have f:
    "w_abandoned (ev_run (ev_writer_write 0 pair5 ''hello'') (quiet5 @ [Loop_timeouts 600000000]))"
    "w_error (ev_run (ev_writer_write 0 pair5 ''hello'') (quiet5 @ [Loop_timeouts 600000000]))
       = Some ETIMEDOUT"
    "w_fd (ev_run (ev_writer_write 0 pair5 ''hello'') (quiet5 @ [Loop_timeouts 600000000])) = - 1"
    by simp_all
  from w5 a b c d e f show ?thesis by simp
qed

end
